theory Spec2Isabelle
  imports Complex_Main "HOL-Library.Monad_Syntax"
begin

section \<open>Gesture detection (src/js/gestures.js)\<close>

text \<open>
  JavaScript numbers are modelled as \<^typ>\<open>real\<close>: the arithmetic is the exact one, without
  rounding and without NaN. Timestamps (\<open>Date.now()\<close>, whole milliseconds) are \<^typ>\<open>int\<close>
  and are inputs of the functions that read the clock. A hand that is not detected
  (\<open>null\<close>) is \<open>None\<close>. A function that throws a \<open>TypeError\<close> (a member read on
  \<open>undefined\<close>) returns \<open>None\<close> in the option monad.
\<close>

definition PINCH_THRESHOLD :: real where "PINCH_THRESHOLD = 0.06"
definition WAVE_VELOCITY_THRESHOLD :: real where "WAVE_VELOCITY_THRESHOLD = 0.02"
definition SPREAD_THRESHOLD :: real where "SPREAD_THRESHOLD = 0.3"
definition CONVERGE_THRESHOLD :: real where "CONVERGE_THRESHOLD = 0.15"
definition SAME_LOCATION_THRESHOLD :: real where "SAME_LOCATION_THRESHOLD = 0.12"
definition HISTORY_LENGTH :: nat where "HISTORY_LENGTH = 5"

record point =
  pt_x :: real
  pt_y :: real
  pt_z :: "real option"

text \<open>\<open>v || 0\<close> on a number that may be missing.\<close>

definition or0 :: "real option \<Rightarrow> real" where
  "or0 v = (case v of None \<Rightarrow> 0 | Some z \<Rightarrow> z)"

text \<open>An entry of \<open>handHistory\<close>: \<open>{x, y, time}\<close>.\<close>

record sample =
  s_x :: real
  s_y :: real
  s_time :: int

record hand_history =
  hist_left :: "sample list"
  hist_right :: "sample list"

record pinch =
  isPinching :: bool
  distance :: real

record wave =
  isWaving :: bool
  velocity :: real
  direction :: real

record hand_state =
  h_detected :: bool
  h_pinch :: pinch
  h_wave :: wave
  h_grasping :: bool
  h_open :: bool

record both_hands =
  b_detected :: bool
  sameLocation :: bool
  spreading :: bool
  converging :: bool
  b_grasping :: bool

record gesture_state =
  gs_left :: hand_state
  gs_right :: hand_state
  bothHands :: both_hands
  handsDistance :: real
  spreadDelta :: real
  convergeDelta :: real

definition distance3D :: "point \<Rightarrow> point \<Rightarrow> real" where
  "distance3D p1 p2 =
     (let dx = pt_x p1 - pt_x p2;
          dy = pt_y p1 - pt_y p2;
          dz = or0 (pt_z p1) - or0 (pt_z p2)
      in sqrt (dx * dx + dy * dy + dz * dz))"

definition distance2D :: "point \<Rightarrow> point \<Rightarrow> real" where
  "distance2D p1 p2 =
     (let dx = pt_x p1 - pt_x p2;
          dy = pt_y p1 - pt_y p2
      in sqrt (dx * dx + dy * dy))"

text \<open>\<open>landmarks[i]\<close> followed by a member read: out of range the element is
  \<open>undefined\<close> and the read throws.\<close>

definition lm :: "point list \<Rightarrow> nat \<Rightarrow> point option" where
  "lm landmarks i = (if i < length landmarks then Some (landmarks ! i) else None)"

text \<open>The \<open>forEach\<close> of \<open>getPalmCenter\<close> over the index list, accumulating \<open>x, y, z\<close>.\<close>

fun palm_sum :: "point list \<Rightarrow> nat list \<Rightarrow> real \<times> real \<times> real \<Rightarrow> (real \<times> real \<times> real) option" where
  "palm_sum landmarks [] acc = Some acc"
| "palm_sum landmarks (i # is) (x, y, z) =
     (case lm landmarks i of
        None \<Rightarrow> None
      | Some p \<Rightarrow> palm_sum landmarks is (x + pt_x p, y + pt_y p, z + or0 (pt_z p)))"

definition getPalmCenter :: "point list \<Rightarrow> point option" where
  "getPalmCenter landmarks =
     (let indices = [0, 5, 9, 13, 17] in
      case palm_sum landmarks indices (0, 0, 0) of
        None \<Rightarrow> None
      | Some (x, y, z) \<Rightarrow>
          Some \<lparr>pt_x = x / real (length indices),
                pt_y = y / real (length indices),
                pt_z = Some (z / real (length indices))\<rparr>)"

definition detectPinch :: "point list option \<Rightarrow> pinch" where
  "detectPinch landmarks =
     (case landmarks of
        None \<Rightarrow> \<lparr>isPinching = False, distance = 1\<rparr>
      | Some ls \<Rightarrow>
          if length ls < 21 then \<lparr>isPinching = False, distance = 1\<rparr>
          else
            let thumbTip = ls ! 4;
                indexTip = ls ! 8;
                dist = distance3D thumbTip indexTip
            in \<lparr>isPinching = dist < PINCH_THRESHOLD, distance = dist\<rparr>)"

text \<open>\<open>while (history.length > HISTORY_LENGTH) history.shift()\<close>.\<close>

function trim_history :: "sample list \<Rightarrow> sample list" where
  "trim_history history =
     (if length history > HISTORY_LENGTH then trim_history (tl history) else history)"
  by pat_completeness auto
termination
  by (relation "measure length") auto

declare trim_history.simps [simp del]

definition no_wave :: wave where
  "no_wave = \<lparr>isWaving = False, velocity = 0, direction = 0\<rparr>"

text \<open>
  \<open>detectWave(landmarks, handType)\<close>: the history of the hand is passed in and returned,
  \<open>now\<close> is the value \<open>Date.now()\<close> returns when the sample is pushed.
\<close>

definition detectWave :: "point list option \<Rightarrow> sample list \<Rightarrow> int \<Rightarrow> (wave \<times> sample list) option" where
  "detectWave landmarks history now =
     (case landmarks of
        None \<Rightarrow> Some (no_wave, history)
      | Some ls \<Rightarrow>
          if length ls < 21 then Some (no_wave, history)
          else do {
            palmCenter \<leftarrow> getPalmCenter ls;
            let history = trim_history
                  (history @ [\<lparr>s_x = pt_x palmCenter, s_y = pt_y palmCenter, s_time = now\<rparr>]);
            if length history < 2 then Some (no_wave, history)
            else
              let oldest = hd history;
                  newest = last history;
                  timeDelta = real_of_int (s_time newest - s_time oldest) / 1000
              in if timeDelta < 0.01 then Some (no_wave, history)
                 else
                   let xVelocity = (s_x newest - s_x oldest) / timeDelta;
                       absVelocity = \<bar>xVelocity\<bar>
                   in Some (\<lparr>isWaving = absVelocity > WAVE_VELOCITY_THRESHOLD,
                              velocity = absVelocity,
                              direction = sgn xVelocity\<rparr>, history)
          })"

definition isSameLocation :: "point list option \<Rightarrow> point list option \<Rightarrow> bool option" where
  "isSameLocation leftLandmarks rightLandmarks =
     (case (leftLandmarks, rightLandmarks) of
        (Some l, Some r) \<Rightarrow> do {
          leftPalm \<leftarrow> getPalmCenter l;
          rightPalm \<leftarrow> getPalmCenter r;
          Some (distance2D leftPalm rightPalm < SAME_LOCATION_THRESHOLD)
        }
      | _ \<Rightarrow> Some False)"

definition getHandsDistance :: "point list option \<Rightarrow> point list option \<Rightarrow> real option" where
  "getHandsDistance leftLandmarks rightLandmarks =
     (case (leftLandmarks, rightLandmarks) of
        (Some l, Some r) \<Rightarrow> do {
          leftPalm \<leftarrow> getPalmCenter l;
          rightPalm \<leftarrow> getPalmCenter r;
          Some (distance2D leftPalm rightPalm)
        }
      | _ \<Rightarrow> Some 0)"

text \<open>The results of \<open>detectSpread\<close> and \<open>detectConverge\<close>:
  \<open>(isSpreading / isConverging, delta, currentDistance)\<close>. The previous distance is
  \<open>None\<close> for \<open>null\<close>.\<close>

definition detectSpread ::
  "point list option \<Rightarrow> point list option \<Rightarrow> real option \<Rightarrow> (bool \<times> real \<times> real) option" where
  "detectSpread leftLandmarks rightLandmarks previousDistance = do {
     currentDistance \<leftarrow> getHandsDistance leftLandmarks rightLandmarks;
     (case previousDistance of
        None \<Rightarrow> Some (False, 0, currentDistance)
      | Some prev \<Rightarrow>
          if leftLandmarks = None \<or> rightLandmarks = None then Some (False, 0, currentDistance)
          else
            let delta = currentDistance - prev
            in Some (delta > 0.02 \<and> currentDistance > SPREAD_THRESHOLD, delta, currentDistance))
   }"

definition detectConverge ::
  "point list option \<Rightarrow> point list option \<Rightarrow> real option \<Rightarrow> (bool \<times> real \<times> real) option" where
  "detectConverge leftLandmarks rightLandmarks previousDistance = do {
     currentDistance \<leftarrow> getHandsDistance leftLandmarks rightLandmarks;
     (case previousDistance of
        None \<Rightarrow> Some (False, 0, currentDistance)
      | Some prev \<Rightarrow>
          if leftLandmarks = None \<or> rightLandmarks = None then Some (False, 0, currentDistance)
          else
            let delta = prev - currentDistance
            in Some (delta > 0.02 \<and> currentDistance < CONVERGE_THRESHOLD, delta, currentDistance))
   }"

text \<open>The loop of \<open>isGrasping\<close> over \<open>fingerChecks\<close>, counting the curled fingers.\<close>

fun curled_loop :: "point list \<Rightarrow> (nat \<times> nat) list \<Rightarrow> nat \<Rightarrow> nat" where
  "curled_loop landmarks [] curledCount = curledCount"
| "curled_loop landmarks ((tipIdx, baseIdx) # rest) curledCount =
     (let tip = landmarks ! tipIdx;
          base = landmarks ! baseIdx;
          wrist = landmarks ! 0;
          tipToWrist = distance2D tip wrist;
          baseToWrist = distance2D base wrist
      in curled_loop landmarks rest
           (if tipToWrist < baseToWrist * 1.2 then curledCount + 1 else curledCount))"

definition isGrasping :: "point list option \<Rightarrow> bool" where
  "isGrasping landmarks =
     (case landmarks of
        None \<Rightarrow> False
      | Some ls \<Rightarrow>
          if length ls < 21 then False
          else curled_loop ls [(8, 5), (12, 9), (16, 13), (20, 17)] 0 \<ge> 3)"

fun extended_loop :: "point list \<Rightarrow> (nat \<times> nat) list \<Rightarrow> nat \<Rightarrow> nat" where
  "extended_loop landmarks [] extendedCount = extendedCount"
| "extended_loop landmarks ((tipIdx, pipIdx) # rest) extendedCount =
     (let tip = landmarks ! tipIdx;
          pip = landmarks ! pipIdx;
          wrist = landmarks ! 0;
          tipToWrist = distance2D tip wrist;
          pipToWrist = distance2D pip wrist
      in extended_loop landmarks rest
           (if tipToWrist > pipToWrist * 1.1 then extendedCount + 1 else extendedCount))"

definition isOpenHand :: "point list option \<Rightarrow> bool" where
  "isOpenHand landmarks =
     (case landmarks of
        None \<Rightarrow> False
      | Some ls \<Rightarrow>
          if length ls < 21 then False
          else extended_loop ls [(8, 6), (12, 10), (16, 14), (20, 18)] 0 \<ge> 3)"

definition detectGrasp :: "point list option \<Rightarrow> point list option \<Rightarrow> bool option" where
  "detectGrasp leftLandmarks rightLandmarks =
     (if leftLandmarks = None \<or> rightLandmarks = None then Some False
      else do {
        let bothGrasping = isGrasping leftLandmarks \<and> isGrasping rightLandmarks;
        samePlace \<leftarrow> isSameLocation leftLandmarks rightLandmarks;
        Some (bothGrasping \<and> samePlace)
      })"

text \<open>\<open>previousState.handsDistance || null\<close>: the previous state is \<open>None\<close> for the
  initial \<open>{}\<close>; a missing field and the number 0 both give \<open>null\<close>.\<close>

definition previous_distance :: "gesture_state option \<Rightarrow> real option" where
  "previous_distance previousState =
     (case previousState of
        None \<Rightarrow> None
      | Some p \<Rightarrow> if handsDistance p = 0 then None else Some (handsDistance p))"

text \<open>
  \<open>getGestureState(leftLandmarks, rightLandmarks, previousState)\<close>. The module variable
  \<open>handHistory\<close> is passed in and returned; \<open>nowLeft\<close> and \<open>nowRight\<close> are the two
  readings of \<open>Date.now()\<close>, one in each call of \<open>detectWave\<close>.
\<close>

definition getGestureState ::
  "point list option \<Rightarrow> point list option \<Rightarrow> gesture_state option \<Rightarrow>
   hand_history \<Rightarrow> int \<Rightarrow> int \<Rightarrow> (gesture_state \<times> hand_history) option" where
  "getGestureState leftLandmarks rightLandmarks previousState handHistory nowLeft nowRight = do {
     let leftPinch = (case leftLandmarks of None \<Rightarrow> \<lparr>isPinching = False, distance = 1\<rparr>
                      | Some _ \<Rightarrow> detectPinch leftLandmarks);
     let rightPinch = (case rightLandmarks of None \<Rightarrow> \<lparr>isPinching = False, distance = 1\<rparr>
                       | Some _ \<Rightarrow> detectPinch rightLandmarks);
     (leftWave, historyLeft) \<leftarrow> detectWave leftLandmarks (hist_left handHistory) nowLeft;
     (rightWave, historyRight) \<leftarrow> detectWave rightLandmarks (hist_right handHistory) nowRight;
     (isSpreading, spread_delta, _) \<leftarrow>
        detectSpread leftLandmarks rightLandmarks (previous_distance previousState);
     (isConverging, converge_delta, _) \<leftarrow>
        detectConverge leftLandmarks rightLandmarks (previous_distance previousState);
     grasp \<leftarrow> detectGrasp leftLandmarks rightLandmarks;
     same \<leftarrow> isSameLocation leftLandmarks rightLandmarks;
     hands_distance \<leftarrow> getHandsDistance leftLandmarks rightLandmarks;
     Some (\<lparr>gs_left = \<lparr>h_detected = leftLandmarks \<noteq> None,
                         h_pinch = leftPinch,
                         h_wave = leftWave,
                         h_grasping = isGrasping leftLandmarks,
                         h_open = isOpenHand leftLandmarks\<rparr>,
            gs_right = \<lparr>h_detected = rightLandmarks \<noteq> None,
                          h_pinch = rightPinch,
                          h_wave = rightWave,
                          h_grasping = isGrasping rightLandmarks,
                          h_open = isOpenHand rightLandmarks\<rparr>,
            bothHands = \<lparr>b_detected = leftLandmarks \<noteq> None \<and> rightLandmarks \<noteq> None,
                           sameLocation = same,
                           spreading = isSpreading,
                           converging = isConverging,
                           b_grasping = grasp\<rparr>,
            handsDistance = hands_distance,
            spreadDelta = spread_delta,
            convergeDelta = converge_delta\<rparr>,
           \<lparr>hist_left = historyLeft, hist_right = historyRight\<rparr>)
   }"

section \<open>The Earth objects and their particles (src/js/earth.js)\<close>

text \<open>
  An Earth instance is a \<open>THREE.Group\<close> with its \<open>userData\<close>. The fields
  \<open>earthParticles\<close> and \<open>particles\<close> are the live position arrays
  (\<open>geometry.attributes.position.array\<close>) of the surface body and of the outer body, flat
  arrays of \<open>3 \<times> count\<close> numbers; the \<open>needsUpdate\<close> flags are the upload requests
  of the two position attributes. Arrays are lists; a typed array has a fixed length,
  here \<open>3 * PARTICLE_COUNT\<close> and \<open>3 * OUTER_COUNT\<close>, and the theorems below are
  stated for lists of these lengths.
\<close>

definition PARTICLE_COUNT :: nat where "PARTICLE_COUNT = 3500"

text \<open>The literal \<open>800\<close> of the outer particle cloud.\<close>

definition OUTER_COUNT :: nat where "OUTER_COUNT = 800"

record earth =
  e_name :: string
  visible :: bool
  position_x :: real
  position_y :: real
  position_z :: real
  rotation_x :: real
  rotation_y :: real
  scale :: real
  earthParticles :: "real list"
  earthParticles_needsUpdate :: bool
  particles :: "real list"
  particles_needsUpdate :: bool
  particles_rotation_x :: real
  particles_rotation_y :: real
  particlePositions :: "real list"
  earthParticlePositions :: "real list"
  particleVelocities :: "real list"
  earthParticleVelocities :: "real list"
  dispersed :: bool
  dispersionAmount :: real

text \<open>
  \<open>createEarthInstance\<close>. The initial positions come from
  \<open>createEarthParticleSystem\<close> and \<open>createOuterParticleSystem\<close>, which draw them with
  \<open>Math.random\<close>: the two arrays are parameters. The rest positions are copies
  (\<open>slice()\<close>), the velocities are zero.
\<close>

definition createEarthInstance :: "real list \<Rightarrow> real list \<Rightarrow> earth" where
  "createEarthInstance surfacePositions outerPositions =
     \<lparr>e_name = [], visible = True,
      position_x = 0, position_y = 0, position_z = 0,
      rotation_x = 0, rotation_y = 0, scale = 1,
      earthParticles = surfacePositions, earthParticles_needsUpdate = False,
      particles = outerPositions, particles_needsUpdate = False,
      particles_rotation_x = 0, particles_rotation_y = 0,
      particlePositions = outerPositions,
      earthParticlePositions = surfacePositions,
      particleVelocities = replicate (OUTER_COUNT * 3) 0,
      earthParticleVelocities = replicate (PARTICLE_COUNT * 3) 0,
      dispersed = False, dispersionAmount = 0\<rparr>"

datatype earth_mode = SINGLE | DUAL | MERGING

text \<open>
  The module state of earth.js and main.js, with the scene. The scene is the list of the
  names of its Earth children. \<open>merge_pending\<close> is the \<open>mergeAnimation\<close> callback
  waiting in \<open>requestAnimationFrame\<close>, with the \<open>startTime\<close> it has captured.
\<close>

record world =
  scene :: "string list"
  earthGroup :: "earth option"
  leftEarth :: "earth option"
  rightEarth :: "earth option"
  isDualMode :: bool
  isMerging :: bool
  earthRotation_x :: real
  earthRotation_y :: real
  earthScale :: real
  targetScale :: real
  merge_pending :: "int option"
  previousGestureState :: "gesture_state option"
  previousPinchDistance :: real
  dualEarthCooldown :: int
  w_handHistory :: hand_history

definition getEarthMode :: "world \<Rightarrow> earth_mode" where
  "getEarthMode w = (if isMerging w then MERGING else if isDualMode w then DUAL else SINGLE)"

definition isDualEarthMode :: "world \<Rightarrow> bool" where
  "isDualEarthMode w = isDualMode w"

text \<open>The state after the module initialisers and \<open>initEarth\<close>.\<close>

definition initEarth :: "real list \<Rightarrow> real list \<Rightarrow> world" where
  "initEarth surfacePositions outerPositions =
     \<lparr>scene = [''mainEarth''],
      earthGroup = Some ((createEarthInstance surfacePositions outerPositions)
                          \<lparr>position_x := 0, position_y := 0, position_z := -3,
                           e_name := ''mainEarth''\<rparr>),
      leftEarth = None, rightEarth = None,
      isDualMode = False, isMerging = False,
      earthRotation_x = 0, earthRotation_y = 0,
      earthScale = 1, targetScale = 1,
      merge_pending = None,
      previousGestureState = None,
      previousPinchDistance = 0,
      dualEarthCooldown = 0,
      w_handHistory = \<lparr>hist_left = [], hist_right = []\<rparr>\<rparr>"

definition handlePinchZoom :: "real \<Rightarrow> real \<Rightarrow> world \<Rightarrow> world" where
  "handlePinchZoom pinchDistance prevPinchDistance w =
     (if prevPinchDistance > 0 then
        let delta = pinchDistance - prevPinchDistance;
            w = w\<lparr>targetScale := targetScale w + delta * 5\<rparr>
        in w\<lparr>targetScale := max 0.3 (min 2 (targetScale w))\<rparr>
      else w)"

definition handleWaveRotation :: "real \<Rightarrow> real \<Rightarrow> world \<Rightarrow> world" where
  "handleWaveRotation vel dir w =
     w\<lparr>earthRotation_y := earthRotation_y w + vel * dir * 0.5\<rparr>"

definition spawnDualEarths :: "real list \<times> real list \<Rightarrow> real list \<times> real list \<Rightarrow> world \<Rightarrow> world" where
  "spawnDualEarths initLeft initRight w =
     (if isDualMode w then w
      else
        let w = w\<lparr>isDualMode := True\<rparr>;
            w = (case earthGroup w of
                   None \<Rightarrow> w
                 | Some g \<Rightarrow> w\<lparr>earthGroup := Some (g\<lparr>visible := False\<rparr>)\<rparr>);
            l = (createEarthInstance (fst initLeft) (snd initLeft))
                  \<lparr>position_x := -1.2, position_y := 0, position_z := -3,
                   scale := 0.7, e_name := ''leftEarth''\<rparr>;
            w = w\<lparr>leftEarth := Some l, scene := scene w @ [e_name l]\<rparr>;
            r = (createEarthInstance (fst initRight) (snd initRight))
                  \<lparr>position_x := 1.2, position_y := 0, position_z := -3,
                   scale := 0.7, e_name := ''rightEarth''\<rparr>;
            w = w\<lparr>rightEarth := Some r, scene := scene w @ [e_name r]\<rparr>
        in w)"

text \<open>\<open>mergeEarths(scene)\<close>; \<open>now\<close> is the reading of \<open>Date.now()\<close> kept as
  \<open>startTime\<close>.\<close>

definition mergeEarths :: "int \<Rightarrow> world \<Rightarrow> world" where
  "mergeEarths now w =
     (if \<not> isDualMode w \<or> isMerging w then w
      else w\<lparr>isMerging := True, merge_pending := Some now\<rparr>)"

text \<open>
  One run of the callback \<open>mergeAnimation\<close> at clock reading \<open>now\<close>. While
  \<open>progress < 1\<close> the callback is requested again and stays pending.
\<close>

definition mergeAnimation :: "int \<Rightarrow> world \<Rightarrow> world" where
  "mergeAnimation now w =
     (case merge_pending w of
        None \<Rightarrow> w
      | Some startTime \<Rightarrow>
          let duration = 1000;
              elapsed = now - startTime;
              progress = min (real_of_int elapsed / duration) 1;
              eased = 1 - (1 - progress) ^ 3;
              w = (case (leftEarth w, rightEarth w) of
                     (Some l, Some r) \<Rightarrow>
                       let sc = 0.7 + 0.3 * eased
                       in w\<lparr>leftEarth := Some (l\<lparr>position_x := -1.2 * (1 - eased),
                                                  scale := sc * (1 - progress * 0.5)\<rparr>),
                            rightEarth := Some (r\<lparr>position_x := 1.2 * (1 - eased),
                                                   scale := sc * (1 - progress * 0.5)\<rparr>)\<rparr>
                   | _ \<Rightarrow> w)
          in if progress < 1 then w
             else
               let w = (case leftEarth w of None \<Rightarrow> w
                        | Some l \<Rightarrow> w\<lparr>scene := removeAll (e_name l) (scene w)\<rparr>);
                   w = (case rightEarth w of None \<Rightarrow> w
                        | Some r \<Rightarrow> w\<lparr>scene := removeAll (e_name r) (scene w)\<rparr>);
                   w = w\<lparr>leftEarth := None, rightEarth := None\<rparr>;
                   w = (case earthGroup w of None \<Rightarrow> w
                        | Some g \<Rightarrow> w\<lparr>earthGroup := Some (g\<lparr>visible := True, scale := 1\<rparr>)\<rparr>)
               in w\<lparr>isDualMode := False, isMerging := False, merge_pending := None\<rparr>)"

subsection \<open>The particle loops\<close>

text \<open>
  \<open>disperseParticles\<close>, \<open>convergeParticles\<close> and \<open>updateParticles\<close> return at once on a
  missing Earth (\<open>if (!earth) return\<close>); their callers pass an Earth they have tested, and
  the functions here take the Earth itself. The fields of \<open>userData\<close> they test
  (\<open>earthParticles\<close>, \<open>particles\<close>, the rest positions, the velocities) are set by
  \<open>createEarthInstance\<close> on every Earth, so the tests hold and the fallbacks
  (\<open>|| new Float32Array(...)\<close>) are not taken; \<open>dispersionAmount || 0\<close> is the amount itself,
  a number.
\<close>

text \<open>\<open>for (let i = 0; i < limit; i += 3)\<close> of \<open>disperseParticles\<close>; \<open>gain\<close> is
  0.025 for the surface body and 0.03 for the outer body.\<close>

function disperse_loop :: "nat \<Rightarrow> real \<Rightarrow> real \<Rightarrow> real list \<Rightarrow> nat \<Rightarrow> real list \<Rightarrow> real list" where
  "disperse_loop limit intensity gain positions i velocities =
     (if i < limit then
        let x = positions ! i;
            y = positions ! (i + 1);
            z = positions ! (i + 2);
            len = sqrt (x * x + y * y + z * z);
            velocities =
              (if len > 0 then
                 let v = velocities[i := velocities ! i + (x / len) * intensity * gain];
                     v = v[i + 1 := v ! (i + 1) + (y / len) * intensity * gain];
                     v = v[i + 2 := v ! (i + 2) + (z / len) * intensity * gain]
                 in v
               else velocities)
        in disperse_loop limit intensity gain positions (i + 3) velocities
      else velocities)"
  by pat_completeness auto
termination
  by (relation "measure (\<lambda>(limit, intensity, gain, positions, i, velocities). limit - i)") auto

declare disperse_loop.simps [simp del]

definition disperseParticles :: "earth \<Rightarrow> real \<Rightarrow> earth" where
  "disperseParticles e intensity =
     (let e = e\<lparr>dispersed := True\<rparr>;
          e = e\<lparr>dispersionAmount := min 1 (dispersionAmount e + intensity * 0.1)\<rparr>;
          e = e\<lparr>earthParticleVelocities :=
                  disperse_loop (PARTICLE_COUNT * 3) intensity 0.025
                    (earthParticles e) 0 (earthParticleVelocities e)\<rparr>;
          e = e\<lparr>particleVelocities :=
                  disperse_loop (OUTER_COUNT * 3) intensity 0.03
                    (particles e) 0 (particleVelocities e)\<rparr>
      in e)"

text \<open>\<open>for (let i = 0; i < limit; i++) positions[i] += (basePositions[i] - positions[i])
  * intensity * rate\<close>, with rate 0.12 (surface) or 0.1 (outer).\<close>

function converge_loop :: "nat \<Rightarrow> real \<Rightarrow> real \<Rightarrow> real list \<Rightarrow> nat \<Rightarrow> real list \<Rightarrow> real list" where
  "converge_loop limit intensity rate basePositions i positions =
     (if i < limit then
        converge_loop limit intensity rate basePositions (i + 1)
          (positions[i := positions ! i + (basePositions ! i - positions ! i) * intensity * rate])
      else positions)"
  by pat_completeness auto
termination
  by (relation "measure (\<lambda>(limit, intensity, rate, basePositions, i, positions). limit - i)") auto

declare converge_loop.simps [simp del]

text \<open>\<open>for (let i = 0; i < limit; i++) velocities[i] *= 0.9\<close>.\<close>

function decay_loop :: "nat \<Rightarrow> nat \<Rightarrow> real list \<Rightarrow> real list" where
  "decay_loop limit i velocities =
     (if i < limit then decay_loop limit (i + 1) (velocities[i := velocities ! i * 0.9])
      else velocities)"
  by pat_completeness auto
termination
  by (relation "measure (\<lambda>(limit, i, velocities). limit - i)") auto

declare decay_loop.simps [simp del]

definition convergeParticles :: "earth \<Rightarrow> real \<Rightarrow> earth" where
  "convergeParticles e intensity =
     (let e = e\<lparr>dispersionAmount := max 0 (dispersionAmount e - intensity * 0.15)\<rparr>;
          e = e\<lparr>earthParticles :=
                  converge_loop (PARTICLE_COUNT * 3) intensity 0.12
                    (earthParticlePositions e) 0 (earthParticles e),
                earthParticles_needsUpdate := True\<rparr>;
          e = e\<lparr>earthParticleVelocities :=
                  decay_loop (PARTICLE_COUNT * 3) 0 (earthParticleVelocities e)\<rparr>;
          e = e\<lparr>particles :=
                  converge_loop (OUTER_COUNT * 3) intensity 0.1
                    (particlePositions e) 0 (particles e),
                particles_needsUpdate := True\<rparr>
      in if dispersionAmount e \<le> 0 then e\<lparr>dispersed := False\<rparr> else e)"

text \<open>
  The loop of \<open>updateParticles\<close>, \<open>for (let i = 0; i < limit; i += 3)\<close>: it returns
  the positions, the velocities and \<open>hasMotion\<close>; \<open>damping\<close> is 0.97 (surface) or 0.98
  (outer).
\<close>

function integrate_loop ::
  "nat \<Rightarrow> real \<Rightarrow> nat \<Rightarrow> real list \<Rightarrow> real list \<Rightarrow> bool \<Rightarrow> real list \<times> real list \<times> bool" where
  "integrate_loop limit damping i positions velocities hasMotion =
     (if i < limit then
        let positions = positions[i := positions ! i + velocities ! i];
            positions = positions[i + 1 := positions ! (i + 1) + velocities ! (i + 1)];
            positions = positions[i + 2 := positions ! (i + 2) + velocities ! (i + 2)];
            velocities = velocities[i := velocities ! i * damping];
            velocities = velocities[i + 1 := velocities ! (i + 1) * damping];
            velocities = velocities[i + 2 := velocities ! (i + 2) * damping];
            hasMotion = (if \<bar>velocities ! i\<bar> > 0.0001 then True else hasMotion)
        in integrate_loop limit damping (i + 3) positions velocities hasMotion
      else (positions, velocities, hasMotion))"
  by pat_completeness auto
termination
  by (relation "measure (\<lambda>(limit, damping, i, positions, velocities, hasMotion). limit - i)") auto

declare integrate_loop.simps [simp del]

definition updateParticles :: "earth \<Rightarrow> real \<Rightarrow> earth" where
  "updateParticles e deltaTime =
     (let (positions, velocities, hasMotion) =
            integrate_loop (PARTICLE_COUNT * 3) 0.97 0
              (earthParticles e) (earthParticleVelocities e) False;
          e = e\<lparr>earthParticles := positions, earthParticleVelocities := velocities\<rparr>;
          e = (if hasMotion then e\<lparr>earthParticles_needsUpdate := True\<rparr> else e);
          (positions, velocities, hasMotion) =
            integrate_loop (OUTER_COUNT * 3) 0.98 0
              (particles e) (particleVelocities e) False;
          e = e\<lparr>particles := positions, particleVelocities := velocities\<rparr>;
          e = (if hasMotion then e\<lparr>particles_needsUpdate := True\<rparr> else e)
      in if \<not> dispersed e
         then e\<lparr>particles_rotation_y := particles_rotation_y e + deltaTime * 0.05,
                particles_rotation_x := particles_rotation_x e + deltaTime * 0.02\<rparr>
         else e)"

definition updateEarth :: "real \<Rightarrow> world \<Rightarrow> world" where
  "updateEarth deltaTime w =
     (let w = w\<lparr>earthScale := earthScale w + (targetScale w - earthScale w) * 0.1\<rparr>;
          w = (case earthGroup w of
                 None \<Rightarrow> w
               | Some g \<Rightarrow>
                   if visible g then
                     let g = g\<lparr>rotation_x := earthRotation_x w\<rparr>;
                         g = g\<lparr>rotation_y := rotation_y g + deltaTime * 0.1\<rparr>;
                         g = g\<lparr>rotation_y := rotation_y g + earthRotation_y w * 0.02\<rparr>;
                         w = w\<lparr>earthRotation_y := earthRotation_y w * 0.95\<rparr>;
                         g = g\<lparr>scale := earthScale w\<rparr>
                     in w\<lparr>earthGroup := Some (updateParticles g deltaTime)\<rparr>
                   else w)
      in if isDualMode w \<and> \<not> isMerging w then
           let w = (case leftEarth w of
                      None \<Rightarrow> w
                    | Some l \<Rightarrow>
                        w\<lparr>leftEarth := Some (updateParticles
                             (l\<lparr>rotation_y := rotation_y l + deltaTime * 0.15\<rparr>) deltaTime)\<rparr>);
               w = (case rightEarth w of
                      None \<Rightarrow> w
                    | Some r \<Rightarrow>
                        w\<lparr>rightEarth := Some (updateParticles
                             (r\<lparr>rotation_y := rotation_y r - deltaTime * 0.15\<rparr>) deltaTime)\<rparr>)
           in w
         else w)"

section \<open>The frame (src/js/main.js)\<close>

text \<open>
  What one frame reads from outside: the two hands of \<open>getHand\<close>, the readings of
  \<open>Date.now()\<close> (in the two calls of \<open>detectWave\<close> and in \<open>mergeEarths\<close>), and the
  random initial particle arrays of the two Earths a spawn creates.
\<close>

record frame_env =
  env_leftHand :: "point list option"
  env_rightHand :: "point list option"
  env_nowLeft :: int
  env_nowRight :: int
  env_nowMerge :: int
  env_spawnLeft :: "real list \<times> real list"
  env_spawnRight :: "real list \<times> real list"

text \<open>\<open>scene.getObjectByName('mainEarth')\<close>.\<close>

definition mainEarth :: "world \<Rightarrow> earth option" where
  "mainEarth w = (if ''mainEarth'' \<in> set (scene w) then earthGroup w else None)"

text \<open>The spawn evaluation of \<open>processGestures\<close>: the block that guards and calls
  \<open>spawnDualEarths\<close> and sets the cooldown.\<close>

definition spawnEvaluation :: "gesture_state \<Rightarrow> frame_env \<Rightarrow> world \<Rightarrow> world" where
  "spawnEvaluation gestureState env w =
     (if b_detected (bothHands gestureState) \<and> \<not> isDualEarthMode w then
        if dualEarthCooldown w \<le> 0 then
          (spawnDualEarths (env_spawnLeft env) (env_spawnRight env) w)\<lparr>dualEarthCooldown := 90\<rparr>
        else w
      else w)"

text \<open>The branch of \<open>processGestures\<close> for the single Earth.\<close>

definition singleEarthControl :: "gesture_state \<Rightarrow> world \<Rightarrow> world" where
  "singleEarthControl gestureState w =
     (let l = gs_left gestureState;
          r = gs_right gestureState;
          w = (if h_grasping l \<or> h_grasping r then
                 (case mainEarth w of None \<Rightarrow> w
                  | Some m \<Rightarrow> w\<lparr>earthGroup := Some (convergeParticles m 0.8)\<rparr>)
               else w);
          w = (if h_open l \<or> h_open r then
                 (case mainEarth w of None \<Rightarrow> w
                  | Some m \<Rightarrow> w\<lparr>earthGroup := Some (disperseParticles m 0.5)\<rparr>)
               else w);
          w = (if isPinching (h_pinch l) \<or> isPinching (h_pinch r) then
                 let currentPinch = (if isPinching (h_pinch l) then distance (h_pinch l)
                                     else distance (h_pinch r));
                     w = (if previousPinchDistance w > 0
                          then handlePinchZoom currentPinch (previousPinchDistance w) w else w)
                 in w\<lparr>previousPinchDistance := currentPinch\<rparr>
               else w\<lparr>previousPinchDistance := 0\<rparr>);
          w = (if isWaving (h_wave l)
               then handleWaveRotation (velocity (h_wave l)) (- direction (h_wave l)) w else w);
          w = (if isWaving (h_wave r)
               then handleWaveRotation (velocity (h_wave r)) (- direction (h_wave r)) w else w)
      in w)"

text \<open>One hand's control of its Earth in dual mode: the body of the blocks
  \<open>LEFT HAND controls LEFT EARTH\<close> and \<open>RIGHT HAND controls RIGHT EARTH\<close>, which are the
  same text.\<close>

definition handControl :: "hand_state \<Rightarrow> earth option \<Rightarrow> earth option" where
  "handControl h target =
     (case target of
        None \<Rightarrow> None
      | Some e \<Rightarrow>
          if h_detected h then
            let e = (if h_grasping h then convergeParticles e 0.8 else e);
                e = (if h_open h then disperseParticles e 0.5 else e);
                e = (if isWaving (h_wave h)
                     then e\<lparr>rotation_y := rotation_y e + velocity (h_wave h) * 0.15\<rparr> else e)
            in Some e
          else Some e)"

text \<open>The branch of \<open>processGestures\<close> for the dual Earths.\<close>

definition dualEarthControl :: "gesture_state \<Rightarrow> frame_env \<Rightarrow> world \<Rightarrow> world" where
  "dualEarthControl gestureState env w =
     (let l = gs_left gestureState;
          r = gs_right gestureState;
          w = w\<lparr>leftEarth := handControl l (leftEarth w)\<rparr>;
          w = w\<lparr>rightEarth := handControl r (rightEarth w)\<rparr>;
          w = (if b_grasping (bothHands gestureState) then mergeEarths (env_nowMerge env) w else w);
          w = (if \<not> b_detected (bothHands gestureState) \<and> (h_detected l \<or> h_detected r) then
                 if dualEarthCooldown w \<le> 0 then mergeEarths (env_nowMerge env) w else w
               else w)
      in w)"

text \<open>\<open>processGestures()\<close>, without the status display.\<close>

definition processGestures :: "frame_env \<Rightarrow> world \<Rightarrow> world option" where
  "processGestures env w = do {
     (gestureState, history) \<leftarrow>
        getGestureState (env_leftHand env) (env_rightHand env) (previousGestureState w)
          (w_handHistory w) (env_nowLeft env) (env_nowRight env);
     let w = w\<lparr>w_handHistory := history\<rparr>;
     let w = spawnEvaluation gestureState env w;
     let w = w\<lparr>dualEarthCooldown := max 0 (dualEarthCooldown w - 1)\<rparr>;
     let w = (if \<not> isDualEarthMode w then singleEarthControl gestureState w
              else dualEarthControl gestureState env w);
     Some (w\<lparr>previousGestureState := Some gestureState\<rparr>)
   }"

text \<open>\<open>animate()\<close> once the systems are initialised, without the HUD and the rendering.\<close>

definition animate :: "real \<Rightarrow> frame_env \<Rightarrow> world \<Rightarrow> world option" where
  "animate deltaTime env w = do {
     w \<leftarrow> processGestures env w;
     Some (updateEarth deltaTime w)
   }"

section \<open>Auxiliary definitions and example inputs\<close>

text \<open>The palm centre of a hand with the landmarks it needs: the mean of the wrist and
  the four finger bases.\<close>

definition palm_mean :: "point list \<Rightarrow> point" where
  "palm_mean ls =
     \<lparr>pt_x = (pt_x (ls ! 0) + pt_x (ls ! 5) + pt_x (ls ! 9) + pt_x (ls ! 13) + pt_x (ls ! 17)) / 5,
      pt_y = (pt_y (ls ! 0) + pt_y (ls ! 5) + pt_y (ls ! 9) + pt_y (ls ! 13) + pt_y (ls ! 17)) / 5,
      pt_z = Some ((or0 (pt_z (ls ! 0)) + or0 (pt_z (ls ! 5)) + or0 (pt_z (ls ! 9))
                    + or0 (pt_z (ls ! 13)) + or0 (pt_z (ls ! 17))) / 5)\<rparr>"

text \<open>A hand as the tracker delivers it: absent, or the 21 landmarks of one hand.\<close>

definition HandLandmarkSet :: "point list option \<Rightarrow> bool" where
  "HandLandmarkSet landmarks = (case landmarks of None \<Rightarrow> True | Some ls \<Rightarrow> length ls = 21)"

text \<open>A hand with all its landmarks at \<open>(1, 0)\<close>.\<close>

definition wave_hand :: "point list" where
  "wave_hand = replicate 21 \<lparr>pt_x = 1, pt_y = 0, pt_z = None\<rparr>"

text \<open>A fist: the wrist at the origin, every other landmark at distance 0.1 from it.\<close>

definition fist_hand :: "point list" where
  "fist_hand = \<lparr>pt_x = 0, pt_y = 0, pt_z = None\<rparr> # replicate 20 \<lparr>pt_x = 0.1, pt_y = 0, pt_z = None\<rparr>"

text \<open>The gesture state of a frame without hands.\<close>

definition no_hand :: hand_state where
  "no_hand = \<lparr>h_detected = False, h_pinch = \<lparr>isPinching = False, distance = 1\<rparr>,
              h_wave = no_wave, h_grasping = False, h_open = False\<rparr>"

definition no_hands_state :: gesture_state where
  "no_hands_state =
     \<lparr>gs_left = no_hand, gs_right = no_hand,
      bothHands = \<lparr>b_detected = False, sameLocation = False, spreading = False,
                   converging = False, b_grasping = False\<rparr>,
      handsDistance = 0, spreadDelta = 0, convergeDelta = 0\<rparr>"

text \<open>A fresh Earth whose particles all have rest position coordinate 0.5 (surface) and 0.9
  (outer).\<close>

definition fresh_earth :: earth where
  "fresh_earth =
     createEarthInstance (replicate (PARTICLE_COUNT * 3) 0.5) (replicate (OUTER_COUNT * 3) 0.9)"

text \<open>The state after \<open>initEarth\<close>, a frame's inputs without hands, a gesture state with
  both hands detected, and the dual state a spawn produces.\<close>

definition start_world :: world where
  "start_world = initEarth (replicate (PARTICLE_COUNT * 3) 0.5) (replicate (OUTER_COUNT * 3) 0.9)"

definition no_hands_env :: frame_env where
  "no_hands_env =
     \<lparr>env_leftHand = None, env_rightHand = None,
      env_nowLeft = 0, env_nowRight = 0, env_nowMerge = 0,
      env_spawnLeft = (replicate (PARTICLE_COUNT * 3) 0.5, replicate (OUTER_COUNT * 3) 0.9),
      env_spawnRight = (replicate (PARTICLE_COUNT * 3) 0.5, replicate (OUTER_COUNT * 3) 0.9)\<rparr>"

definition both_detected_state :: gesture_state where
  "both_detected_state =
     no_hands_state\<lparr>bothHands := (bothHands no_hands_state)\<lparr>b_detected := True\<rparr>\<rparr>"

definition dual_world :: world where
  "dual_world = spawnDualEarths (env_spawnLeft no_hands_env) (env_spawnRight no_hands_env) start_world"

text \<open>A frame's inputs with the left hand only.\<close>

definition left_hand_env :: frame_env where
  "left_hand_env = no_hands_env\<lparr>env_leftHand := Some fist_hand\<rparr>"

text \<open>The four arrays of the two particle bodies of an Earth: live positions and
  velocities of the surface body and of the outer body.\<close>

definition body_arrays :: "earth \<Rightarrow> real list \<times> real list \<times> real list \<times> real list" where
  "body_arrays e =
     (earthParticles e, earthParticleVelocities e, particles e, particleVelocities e)"

text \<open>The merging state reached from the dual state after the left Earth was dispersed.\<close>

definition merging_world :: world where
  "merging_world =
     mergeEarths 0
       (dual_world\<lparr>leftEarth := map_option (\<lambda>e. disperseParticles e 0.5) (leftEarth dual_world)\<rparr>)"

text \<open>
  The Hand History Buffer in the words of the specification. \<open>spec_record\<close> is
  \<open>record(side, palmSample)\<close>: the sample of a present hand, stamped with the clock
  reading, is appended and the oldest samples beyond five are evicted; the buffer of an
  absent hand is left as it is. \<open>spec_estimateVelocity\<close> is \<open>estimateVelocity(side)\<close>,
  a function of the buffer alone: the sign and the size of the \<open>x\<close> difference of the
  newest and the oldest retained sample over the elapsed seconds, and the zero result
  under two samples or under 10 ms.
\<close>

definition spec_record :: "point list option \<Rightarrow> sample list \<Rightarrow> int \<Rightarrow> sample list" where
  "spec_record landmarks buffer now =
     (case landmarks of
        None \<Rightarrow> buffer
      | Some ls \<Rightarrow>
          let b = buffer @ [\<lparr>s_x = pt_x (palm_mean ls), s_y = pt_y (palm_mean ls), s_time = now\<rparr>]
          in drop (length b - 5) b)"

definition spec_estimateVelocity :: "sample list \<Rightarrow> wave" where
  "spec_estimateVelocity buffer =
     (let dx = s_x (last buffer) - s_x (hd buffer);
          ms = s_time (last buffer) - s_time (hd buffer)
      in if length buffer < 2 \<or> ms < 10
         then \<lparr>isWaving = False, velocity = 0, direction = 0\<rparr>
         else \<lparr>isWaving = \<bar>dx\<bar> / (real_of_int ms / 1000) > 0.02,
               velocity = \<bar>dx\<bar> / (real_of_int ms / 1000),
               direction = sgn dx\<rparr>)"

text \<open>Two history states that differ in the sample the next push evicts.\<close>

definition five_samples :: "real \<Rightarrow> sample list" where
  "five_samples x0 =
     [\<lparr>s_x = x0, s_y = 0, s_time = -500\<rparr>,
      \<lparr>s_x = 0, s_y = 0, s_time = 0\<rparr>, \<lparr>s_x = 0, s_y = 0, s_time = 0\<rparr>,
      \<lparr>s_x = 0, s_y = 0, s_time = 0\<rparr>, \<lparr>s_x = 0, s_y = 0, s_time = 0\<rparr>]"

text \<open>The distance of particle \<open>k\<close> of a flat position array from the local origin, the
  \<open>len\<close> of the disperse loop.\<close>

definition particle_len :: "real list \<Rightarrow> nat \<Rightarrow> real" where
  "particle_len positions k =
     sqrt (positions ! (3 * k) * positions ! (3 * k)
           + positions ! (3 * k + 1) * positions ! (3 * k + 1)
           + positions ! (3 * k + 2) * positions ! (3 * k + 2))"

text \<open>A draw of the outer cloud with every particle on the \<open>y\<close> axis, at radius 0.7 up to
  1.1: the positions \<open>createOuterParticleSystem\<close> computes when \<open>Math.random\<close> gives
  \<open>theta = \<pi>/2\<close>, \<open>phi = \<pi>/2\<close> and the radius of particle \<open>k\<close> is \<open>0.7 + k * 0.0005\<close>.\<close>

definition axis_outer :: "real list" where
  "axis_outer =
     map (\<lambda>j. if j mod 3 = 1 then 0.7 + real (j div 3) * 0.0005 else 0) [0..<OUTER_COUNT * 3]"

section \<open>Properties\<close>

lemma getPalmCenter_present: "18 \<le> length ls \<Longrightarrow> getPalmCenter ls = Some (palm_mean ls)"
  by (auto simp add: getPalmCenter_def lm_def palm_mean_def)

lemma getPalmCenter_short: "length ls < 18 \<Longrightarrow> getPalmCenter ls = None"
  by (simp add: getPalmCenter_def lm_def split: option.splits)

lemma trim_history_drop: "trim_history h = drop (length h - HISTORY_LENGTH) h"
proof (induction h rule: trim_history.induct)
  case (1 h)
  show ?case
  proof (cases "length h > HISTORY_LENGTH")
    case True
    then have "h \<noteq> []" by auto
    then obtain a t where h: "h = a # t" by (cases h) auto
    from True 1 have "trim_history h = drop (length (tl h) - HISTORY_LENGTH) (tl h)"
      by (subst trim_history.simps) simp
    also have "\<dots> = drop (length h - HISTORY_LENGTH) h"
      using True h by (simp add: Suc_diff_le drop_Cons')
    finally show ?thesis .
  next
    case False
    then show ?thesis by (subst trim_history.simps) simp
  qed
qed

text \<open>
  Claim C7. For a hand with its 21 landmarks, \<open>detectWave\<close> pushes the palm sample, keeps
  the five most recent samples, and estimates the velocity from the oldest and the newest
  retained sample: with \<open>dx = newest.x - oldest.x\<close> and \<open>ms\<close> the elapsed milliseconds,
  the result is zero and not waving when fewer than two samples are retained or
  \<open>ms < 10\<close>; otherwise the magnitude is \<open>|dx|\<close> divided by the elapsed seconds, the
  direction is the sign of \<open>dx\<close>, and \<open>isWaving\<close> holds iff the magnitude exceeds 0.02.
\<close>

theorem detectWave_estimate:
  assumes len: "21 \<le> length ls"
    and h': "h' = trim_history (history @
               [\<lparr>s_x = pt_x (palm_mean ls), s_y = pt_y (palm_mean ls), s_time = now\<rparr>])"
    and dx: "dx = s_x (last h') - s_x (hd h')"
    and ms: "ms = s_time (last h') - s_time (hd h')"
  shows "detectWave (Some ls) history now =
           Some (if length h' < 2 \<or> ms < 10
                 then \<lparr>isWaving = False, velocity = 0, direction = 0\<rparr>
                 else \<lparr>isWaving = \<bar>dx\<bar> / (real_of_int ms / 1000) > 0.02,
                       velocity = \<bar>dx\<bar> / (real_of_int ms / 1000),
                       direction = sgn dx\<rparr>, h')
         \<and> h' = drop (length history + 1 - 5)
                  (history @ [\<lparr>s_x = pt_x (palm_mean ls), s_y = pt_y (palm_mean ls), s_time = now\<rparr>])"
proof -
  have pc: "getPalmCenter ls = Some (palm_mean ls)"
    using len by (simp add: getPalmCenter_present)
  have td: "(real_of_int ms / 1000 < 0.01) = (ms < 10)"
    by auto
  have sg: "\<not> ms < 10 \<Longrightarrow> sgn (dx / (real_of_int ms / 1000)) = sgn dx"
    by (simp add: sgn_mult sgn_divide)
  have ab: "\<not> ms < 10 \<Longrightarrow> \<bar>dx / (real_of_int ms / 1000)\<bar> = \<bar>dx\<bar> / (real_of_int ms / 1000)"
    by simp
  have dw: "detectWave (Some ls) history now =
           (if length h' < 2 then Some (no_wave, h')
            else if real_of_int ms / 1000 < 0.01 then Some (no_wave, h')
            else Some (\<lparr>isWaving = \<bar>dx / (real_of_int ms / 1000)\<bar> > WAVE_VELOCITY_THRESHOLD,
                       velocity = \<bar>dx / (real_of_int ms / 1000)\<bar>,
                       direction = sgn (dx / (real_of_int ms / 1000))\<rparr>, h'))"
    using len
    by (simp add: detectWave_def pc Let_def h' dx ms)
  have 1: "detectWave (Some ls) history now =
           Some (if length h' < 2 \<or> ms < 10
                 then \<lparr>isWaving = False, velocity = 0, direction = 0\<rparr>
                 else \<lparr>isWaving = \<bar>dx\<bar> / (real_of_int ms / 1000) > 0.02,
                       velocity = \<bar>dx\<bar> / (real_of_int ms / 1000),
                       direction = sgn dx\<rparr>, h')"
  proof (cases "length h' < 2 \<or> ms < 10")
    case True
    then show ?thesis unfolding dw td by (auto simp: no_wave_def)
  next
    case False
    then have m: "\<not> ms < 10" and l: "\<not> length h' < 2" by auto
    show ?thesis unfolding dw td sg[OF m] ab[OF m] WAVE_VELOCITY_THRESHOLD_def
      using m l by simp
  qed
  have 2: "h' = drop (length history + 1 - 5)
                  (history @ [\<lparr>s_x = pt_x (palm_mean ls), s_y = pt_y (palm_mean ls), s_time = now\<rparr>])"
    unfolding h' trim_history_drop by (simp add: HISTORY_LENGTH_def)
  from 1 2 show ?thesis by blast
qed

theorem detectWave_estimate_witness:
  "21 \<le> length wave_hand \<and>
   detectWave (Some wave_hand) [\<lparr>s_x = 0, s_y = 0, s_time = 0\<rparr>] 1000 =
     Some (\<lparr>isWaving = True, velocity = 1, direction = 1\<rparr>,
           [\<lparr>s_x = 0, s_y = 0, s_time = 0\<rparr>, \<lparr>s_x = 1, s_y = 0, s_time = 1000\<rparr>])"
proof -
  have pm: "pt_x (palm_mean wave_hand) = 1" "pt_y (palm_mean wave_hand) = 0"
    by (simp_all add: palm_mean_def wave_hand_def)
  have len: "21 \<le> length wave_hand" by (simp add: wave_hand_def)
  have h: "[\<lparr>s_x = 0, s_y = 0, s_time = 0\<rparr>, \<lparr>s_x = 1, s_y = 0, s_time = 1000\<rparr>] =
           trim_history ([\<lparr>s_x = 0, s_y = 0, s_time = 0\<rparr>] @
             [\<lparr>s_x = pt_x (palm_mean wave_hand), s_y = pt_y (palm_mean wave_hand), s_time = 1000\<rparr>])"
    by (simp add: pm HISTORY_LENGTH_def trim_history.simps)
  from detectWave_estimate [OF len h refl refl] len show ?thesis by simp
qed

lemma HandLandmarkSet_Some [simp]: "HandLandmarkSet (Some ls) = (length ls = 21)"
  by (simp add: HandLandmarkSet_def)

lemma HandLandmarkSet_None [simp]: "HandLandmarkSet None"
  by (simp add: HandLandmarkSet_def)

lemma detectWave_returns:
  "HandLandmarkSet l \<Longrightarrow> \<exists>wv h. detectWave l history now = Some (wv, h)"
  by (cases l) (simp_all add: detectWave_def getPalmCenter_present Let_def)

lemma getHandsDistance_present:
  "18 \<le> length l \<Longrightarrow> 18 \<le> length r \<Longrightarrow>
   getHandsDistance (Some l) (Some r) = Some (distance2D (palm_mean l) (palm_mean r))"
  by (simp add: getHandsDistance_def getPalmCenter_present)

lemma getHandsDistance_absent:
  "l = None \<or> r = None \<Longrightarrow> getHandsDistance l r = Some 0"
  by (auto simp: getHandsDistance_def split: option.splits)

lemma getHandsDistance_returns:
  "HandLandmarkSet l \<Longrightarrow> HandLandmarkSet r \<Longrightarrow> \<exists>d. getHandsDistance l r = Some d"
  by (cases l; cases r) (simp_all add: getHandsDistance_absent getHandsDistance_present)

lemma isSameLocation_present:
  "18 \<le> length l \<Longrightarrow> 18 \<le> length r \<Longrightarrow>
   isSameLocation (Some l) (Some r) =
     Some (distance2D (palm_mean l) (palm_mean r) < SAME_LOCATION_THRESHOLD)"
  by (simp add: isSameLocation_def getPalmCenter_present)

lemma isSameLocation_absent:
  "l = None \<or> r = None \<Longrightarrow> isSameLocation l r = Some False"
  by (auto simp: isSameLocation_def split: option.splits)

lemma isSameLocation_returns:
  "HandLandmarkSet l \<Longrightarrow> HandLandmarkSet r \<Longrightarrow> \<exists>b. isSameLocation l r = Some b"
  by (cases l; cases r) (auto simp add: isSameLocation_absent isSameLocation_present)

lemma detectGrasp_returns:
  "HandLandmarkSet l \<Longrightarrow> HandLandmarkSet r \<Longrightarrow> \<exists>b. detectGrasp l r = Some b"
  using isSameLocation_returns [of l r] by (auto simp: detectGrasp_def)

lemma detectSpread_no_previous:
  "getHandsDistance l r = Some d \<Longrightarrow> detectSpread l r None = Some (False, 0, d)"
  by (simp add: detectSpread_def)

lemma detectConverge_no_previous:
  "getHandsDistance l r = Some d \<Longrightarrow> detectConverge l r None = Some (False, 0, d)"
  by (simp add: detectConverge_def)

lemma detectSpread_returns:
  "getHandsDistance l r = Some d \<Longrightarrow> \<exists>b dl. detectSpread l r prev = Some (b, dl, d)"
  by (cases prev) (auto simp add: detectSpread_def Let_def)

lemma detectConverge_returns:
  "getHandsDistance l r = Some d \<Longrightarrow> \<exists>b dl. detectConverge l r prev = Some (b, dl, d)"
  by (cases prev) (auto simp add: detectConverge_def Let_def)

lemma getGestureState_returns:
  assumes "HandLandmarkSet l" "HandLandmarkSet r"
  shows "\<exists>g h. getGestureState l r prev hist tL tR = Some (g, h)"
proof -
  obtain wl hl where 1: "detectWave l (hist_left hist) tL = Some (wl, hl)"
    using detectWave_returns [OF assms(1)] by blast
  obtain wr hr where 2: "detectWave r (hist_right hist) tR = Some (wr, hr)"
    using detectWave_returns [OF assms(2)] by blast
  obtain d where 3: "getHandsDistance l r = Some d"
    using getHandsDistance_returns [OF assms] by blast
  obtain sb sd where 4: "detectSpread l r (previous_distance prev) = Some (sb, sd, d)"
    using detectSpread_returns [OF 3] by blast
  obtain cb cd where 5: "detectConverge l r (previous_distance prev) = Some (cb, cd, d)"
    using detectConverge_returns [OF 3] by blast
  obtain g where 6: "detectGrasp l r = Some g"
    using detectGrasp_returns [OF assms] by blast
  obtain s where 7: "isSameLocation l r = Some s"
    using isSameLocation_returns [OF assms] by blast
  show ?thesis
    by (simp add: getGestureState_def 1 2 3 4 5 6 7)
qed

lemma getGestureState_fields:
  assumes "getGestureState l r prev hist tL tR = Some (g, h)"
  shows "h_detected (gs_left g) = (l \<noteq> None)"
    and "h_detected (gs_right g) = (r \<noteq> None)"
    and "h_grasping (gs_left g) = isGrasping l"
    and "h_grasping (gs_right g) = isGrasping r"
    and "b_detected (bothHands g) = (l \<noteq> None \<and> r \<noteq> None)"
    and "detectGrasp l r = Some (b_grasping (bothHands g))"
    and "isSameLocation l r = Some (sameLocation (bothHands g))"
    and "getHandsDistance l r = Some (handsDistance g)"
    and "detectSpread l r (previous_distance prev) =
           Some (spreading (bothHands g), spreadDelta g, handsDistance g)"
    and "detectConverge l r (previous_distance prev) =
           Some (converging (bothHands g), convergeDelta g, handsDistance g)"
  using assms
  by (auto simp: getGestureState_def detectSpread_def detectConverge_def
      bind_eq_Some_conv Let_def split: prod.splits option.splits if_splits)

text \<open>
  Claim C8. For two present hands with their 21 landmarks, the pair-level grasp is true
  exactly when both hands are grasping and the 2D distance of the palm centres is
  strictly below 0.12; the gesture state of the frame carries this value as the pair's
  \<open>grasping\<close>, next to the two individual \<open>grasping\<close> flags.
\<close>

theorem detectGrasp_iff:
  assumes "length l = 21" and "length r = 21"
  shows "detectGrasp (Some l) (Some r) =
           Some (isGrasping (Some l) \<and> isGrasping (Some r) \<and>
                 distance2D (palm_mean l) (palm_mean r) < 0.12)
         \<and> (\<exists>g h. getGestureState (Some l) (Some r) prev hist tL tR = Some (g, h) \<and>
                b_grasping (bothHands g) =
                  (h_grasping (gs_left g) \<and> h_grasping (gs_right g) \<and>
                   distance2D (palm_mean l) (palm_mean r) < 0.12))"
proof -
  have 1: "detectGrasp (Some l) (Some r) =
           Some (isGrasping (Some l) \<and> isGrasping (Some r) \<and>
                 distance2D (palm_mean l) (palm_mean r) < 0.12)"
    using assms
    by (simp add: detectGrasp_def isSameLocation_present SAME_LOCATION_THRESHOLD_def)
  obtain g h where gh: "getGestureState (Some l) (Some r) prev hist tL tR = Some (g, h)"
    using getGestureState_returns [of "Some l" "Some r" prev hist tL tR] assms by auto
  have "b_grasping (bothHands g) =
          (h_grasping (gs_left g) \<and> h_grasping (gs_right g) \<and>
           distance2D (palm_mean l) (palm_mean r) < 0.12)"
    using getGestureState_fields(3,4,6) [OF gh] 1 by simp
  with gh 1 show ?thesis by blast
qed

lemma distance2D_horizontal:
  "pt_y p = pt_y q \<Longrightarrow> distance2D p q = \<bar>pt_x p - pt_x q\<bar>"
  by (simp add: distance2D_def)

lemma isGrasping_fist_hand: "isGrasping (Some fist_hand)"
  by (simp add: isGrasping_def fist_hand_def distance2D_horizontal)

theorem detectGrasp_iff_witness:
  "length fist_hand = 21 \<and> detectGrasp (Some fist_hand) (Some fist_hand) = Some True \<and>
   (\<exists>g h. getGestureState (Some fist_hand) (Some fist_hand) None
            \<lparr>hist_left = [], hist_right = []\<rparr> 0 0 = Some (g, h) \<and> b_grasping (bothHands g))"
proof -
  have len: "length fist_hand = 21" by (simp add: fist_hand_def)
  have d: "distance2D (palm_mean fist_hand) (palm_mean fist_hand) = 0"
    by (simp add: distance2D_def)
  from detectGrasp_iff [OF len len, of None "\<lparr>hist_left = [], hist_right = []\<rparr>" 0 0]
  obtain g h where 1: "detectGrasp (Some fist_hand) (Some fist_hand) = Some True"
    and gh: "getGestureState (Some fist_hand) (Some fist_hand) None
               \<lparr>hist_left = [], hist_right = []\<rparr> 0 0 = Some (g, h)"
    and b: "b_grasping (bothHands g) = (h_grasping (gs_left g) \<and> h_grasping (gs_right g))"
    by (auto simp: isGrasping_fist_hand d)
  from b getGestureState_fields(3,4) [OF gh] have "b_grasping (bothHands g)"
    by (simp add: isGrasping_fist_hand)
  with len 1 gh show ?thesis by blast
qed

lemma getGestureState_absent:
  "getGestureState None None prev hist tL tR = Some (no_hands_state, hist)"
  by (simp add: getGestureState_def detectWave_def detectSpread_def detectConverge_def
      getHandsDistance_def detectGrasp_def isSameLocation_def isGrasping_def isOpenHand_def
      no_hands_state_def no_hand_def split: option.splits)

text \<open>
  Claim C10. A previous state whose \<open>handsDistance\<close> is 0 is treated as no previous
  distance: the call returns what it returns for the initial empty previous state, with
  \<open>spreading\<close> and \<open>converging\<close> false and both deltas 0. The distance reported when a
  hand is absent is 0, so this is the case on the frame after a hand was missing.
\<close>

theorem zero_previous_distance:
  assumes "HandLandmarkSet l" and "HandLandmarkSet r" and "handsDistance p = 0"
  shows "getGestureState l r (Some p) hist tL tR = getGestureState l r None hist tL tR
         \<and> (\<exists>g h. getGestureState l r (Some p) hist tL tR = Some (g, h) \<and>
                \<not> spreading (bothHands g) \<and> \<not> converging (bothHands g) \<and>
                spreadDelta g = 0 \<and> convergeDelta g = 0 \<and>
                ((l = None \<or> r = None) \<longrightarrow> handsDistance g = 0))"
proof -
  have pd: "previous_distance (Some p) = None"
    using assms(3) by (simp add: previous_distance_def)
  have pn: "previous_distance None = None"
    by (simp add: previous_distance_def)
  have 1: "getGestureState l r (Some p) hist tL tR = getGestureState l r None hist tL tR"
    by (simp add: getGestureState_def pd pn)
  obtain g h where gh: "getGestureState l r (Some p) hist tL tR = Some (g, h)"
    using getGestureState_returns [OF assms(1,2)] by blast
  note f = getGestureState_fields [OF gh]
  from f(8) have d: "getHandsDistance l r = Some (handsDistance g)" .
  from f(9) have "\<not> spreading (bothHands g) \<and> spreadDelta g = 0"
    unfolding pd detectSpread_no_previous [OF d] by simp
  moreover from f(10) have "\<not> converging (bothHands g) \<and> convergeDelta g = 0"
    unfolding pd detectConverge_no_previous [OF d] by simp
  moreover have "(l = None \<or> r = None) \<longrightarrow> handsDistance g = 0"
    using d getHandsDistance_absent [of l r] by auto
  ultimately show ?thesis using 1 gh by blast
qed

theorem zero_previous_distance_witness:
  "HandLandmarkSet (Some fist_hand) \<and> HandLandmarkSet None \<and> handsDistance no_hands_state = 0 \<and>
   (Some fist_hand = None \<or> (None :: point list option) = None) \<and>
   (\<exists>g h. getGestureState (Some fist_hand) None (Some no_hands_state)
             \<lparr>hist_left = [], hist_right = []\<rparr> 0 0 = Some (g, h) \<and>
          \<not> spreading (bothHands g) \<and> \<not> converging (bothHands g) \<and>
          spreadDelta g = 0 \<and> convergeDelta g = 0 \<and> handsDistance g = 0)"
proof -
  have a: "HandLandmarkSet (Some fist_hand)" by (simp add: fist_hand_def)
  have b: "HandLandmarkSet None" by simp
  have c: "handsDistance no_hands_state = 0" by (simp add: no_hands_state_def)
  from conjunct2 [OF zero_previous_distance [OF a b c, of "\<lparr>hist_left = [], hist_right = []\<rparr>" 0 0]]
  obtain g h where "getGestureState (Some fist_hand) None (Some no_hands_state)
             \<lparr>hist_left = [], hist_right = []\<rparr> 0 0 = Some (g, h)"
    and "\<not> spreading (bothHands g)" and "\<not> converging (bothHands g)"
    and "spreadDelta g = 0" and "convergeDelta g = 0" and "handsDistance g = 0"
    by blast
  with a b c show ?thesis by blast
qed

lemma detectWave_recorded:
  assumes "HandLandmarkSet l"
  shows "detectWave l buffer now =
           Some (if l = None then no_wave
                 else spec_estimateVelocity (spec_record l buffer now),
                 spec_record l buffer now)"
proof (cases l)
  case None
  then show ?thesis by (simp add: detectWave_def spec_record_def)
next
  case (Some ls)
  with assms have len: "length ls = 21" by simp
  define b where "b = spec_record (Some ls) buffer now"
  define dx where "dx = s_x (last b) - s_x (hd b)"
  define ms where "ms = s_time (last b) - s_time (hd b)"
  have tr: "trim_history (buffer @
              [\<lparr>s_x = pt_x (palm_mean ls), s_y = pt_y (palm_mean ls), s_time = now\<rparr>]) = b"
    by (simp add: b_def spec_record_def trim_history_drop HISTORY_LENGTH_def Let_def)
  have pc: "getPalmCenter ls = Some (palm_mean ls)"
    using len by (simp add: getPalmCenter_present)
  have td: "(real_of_int ms / 1000 < 0.01) = (ms < 10)"
    by auto
  have sg: "\<not> ms < 10 \<Longrightarrow> sgn (dx / (real_of_int ms / 1000)) = sgn dx"
    by (simp add: sgn_mult sgn_divide)
  have ab: "\<not> ms < 10 \<Longrightarrow> \<bar>dx / (real_of_int ms / 1000)\<bar> = \<bar>dx\<bar> / (real_of_int ms / 1000)"
    by simp
  have dw: "detectWave (Some ls) buffer now =
           (if length b < 2 then Some (no_wave, b)
            else if real_of_int ms / 1000 < 0.01 then Some (no_wave, b)
            else Some (\<lparr>isWaving = \<bar>dx / (real_of_int ms / 1000)\<bar> > WAVE_VELOCITY_THRESHOLD,
                       velocity = \<bar>dx / (real_of_int ms / 1000)\<bar>,
                       direction = sgn (dx / (real_of_int ms / 1000))\<rparr>, b))"
    using len by (simp add: detectWave_def pc Let_def tr dx_def ms_def)
  have se: "spec_estimateVelocity b =
           (if length b < 2 \<or> ms < 10
            then \<lparr>isWaving = False, velocity = 0, direction = 0\<rparr>
            else \<lparr>isWaving = \<bar>dx\<bar> / (real_of_int ms / 1000) > 0.02,
                  velocity = \<bar>dx\<bar> / (real_of_int ms / 1000),
                  direction = sgn dx\<rparr>)"
    by (simp add: spec_estimateVelocity_def Let_def dx_def ms_def)
  have "detectWave (Some ls) buffer now = Some (spec_estimateVelocity b, b)"
  proof (cases "length b < 2 \<or> ms < 10")
    case True
    then show ?thesis unfolding dw td se by (auto simp: no_wave_def)
  next
    case False
    then have m: "\<not> ms < 10" and l: "\<not> length b < 2" by auto
    show ?thesis unfolding dw td se sg [OF m] ab [OF m] WAVE_VELOCITY_THRESHOLD_def
      using m l by simp
  qed
  then show ?thesis by (simp add: Some b_def)
qed

lemma getGestureState_wave_fields:
  assumes "getGestureState l r prev hist tL tR = Some (g, h)"
  shows "detectWave l (hist_left hist) tL = Some (h_wave (gs_left g), hist_left h)"
    and "detectWave r (hist_right hist) tR = Some (h_wave (gs_right g), hist_right h)"
  using assms
  by (auto simp: getGestureState_def bind_eq_Some_conv split: prod.splits)

lemma getGestureState_same_waves:
  assumes "detectWave l (hist_left hist) tL = detectWave l (hist_left hist') tL'"
    and "detectWave r (hist_right hist) tR = detectWave r (hist_right hist') tR'"
    and "previous_distance prev = previous_distance prev'"
  shows "getGestureState l r prev hist tL tR = getGestureState l r prev' hist' tL' tR'"
  by (simp add: getGestureState_def assms)

text \<open>
  Claim C4, as the code has it. For hands with their 21 landmarks the call returns, and
  the only state it writes is the pair of buffers: each becomes the recorded buffer, the
  sample of a present hand stamped with the reading of the clock taken in the call. The
  gesture state is a function of the two landmark sets, the previous distance and the
  recorded buffers: two calls that agree on these return the same gesture state, whatever
  else differs in the previous state, in the buffers before the call and in the clock
  readings; the wave of a present hand is the velocity estimate of its recorded buffer.
\<close>

theorem gesture_state_of_recorded_buffers:
  assumes "HandLandmarkSet l" and "HandLandmarkSet r"
    and "previous_distance prev = previous_distance prev'"
    and "spec_record l (hist_left hist) tL = spec_record l (hist_left hist') tL'"
    and "spec_record r (hist_right hist) tR = spec_record r (hist_right hist') tR'"
  shows "\<exists>g. getGestureState l r prev hist tL tR =
               Some (g, \<lparr>hist_left = spec_record l (hist_left hist) tL,
                         hist_right = spec_record r (hist_right hist) tR\<rparr>)
           \<and> getGestureState l r prev' hist' tL' tR' =
               Some (g, \<lparr>hist_left = spec_record l (hist_left hist) tL,
                         hist_right = spec_record r (hist_right hist) tR\<rparr>)
           \<and> h_wave (gs_left g) =
               (if l = None then no_wave
                else spec_estimateVelocity (spec_record l (hist_left hist) tL))
           \<and> h_wave (gs_right g) =
               (if r = None then no_wave
                else spec_estimateVelocity (spec_record r (hist_right hist) tR))"
proof -
  obtain g h where gh: "getGestureState l r prev hist tL tR = Some (g, h)"
    using getGestureState_returns [OF assms(1,2)] by blast
  note wl = getGestureState_wave_fields(1) [OF gh, unfolded detectWave_recorded [OF assms(1)]]
  note wr = getGestureState_wave_fields(2) [OF gh, unfolded detectWave_recorded [OF assms(2)]]
  from wl wr have h: "h = \<lparr>hist_left = spec_record l (hist_left hist) tL,
                            hist_right = spec_record r (hist_right hist) tR\<rparr>"
    by (cases h) simp
  have same: "getGestureState l r prev hist tL tR = getGestureState l r prev' hist' tL' tR'"
    by (rule getGestureState_same_waves)
       (simp_all add: detectWave_recorded [OF assms(1)] detectWave_recorded [OF assms(2)] assms(3-5))
  have 1: "getGestureState l r prev hist tL tR =
               Some (g, \<lparr>hist_left = spec_record l (hist_left hist) tL,
                         hist_right = spec_record r (hist_right hist) tR\<rparr>)"
    using gh h by simp
  have 2: "getGestureState l r prev' hist' tL' tR' =
               Some (g, \<lparr>hist_left = spec_record l (hist_left hist) tL,
                         hist_right = spec_record r (hist_right hist) tR\<rparr>)"
    using 1 same by simp
  have 3: "h_wave (gs_left g) =
               (if l = None then no_wave
                else spec_estimateVelocity (spec_record l (hist_left hist) tL))"
    using wl by simp
  have 4: "h_wave (gs_right g) =
               (if r = None then no_wave
                else spec_estimateVelocity (spec_record r (hist_right hist) tR))"
    using wr by simp
  show ?thesis by (intro exI [of _ g] conjI 1 2 3 4)
qed

theorem gesture_state_of_recorded_buffers_witness:
  "HandLandmarkSet (Some wave_hand) \<and> HandLandmarkSet None \<and>
   previous_distance None = previous_distance (Some no_hands_state) \<and>
   spec_record (Some wave_hand) (five_samples 7) 1000 =
     spec_record (Some wave_hand) (five_samples 3) 1000 \<and>
   spec_record None [] 0 = spec_record None [] 99 \<and>
   five_samples 7 \<noteq> five_samples 3 \<and>
   (\<exists>g. getGestureState (Some wave_hand) None None
            \<lparr>hist_left = five_samples 7, hist_right = []\<rparr> 1000 0 =
          Some (g, \<lparr>hist_left = [\<lparr>s_x = 0, s_y = 0, s_time = 0\<rparr>, \<lparr>s_x = 0, s_y = 0, s_time = 0\<rparr>,
                                    \<lparr>s_x = 0, s_y = 0, s_time = 0\<rparr>, \<lparr>s_x = 0, s_y = 0, s_time = 0\<rparr>,
                                    \<lparr>s_x = 1, s_y = 0, s_time = 1000\<rparr>],
                    hist_right = []\<rparr>) \<and>
        getGestureState (Some wave_hand) None (Some no_hands_state)
            \<lparr>hist_left = five_samples 3, hist_right = []\<rparr> 1000 99 =
          Some (g, \<lparr>hist_left = [\<lparr>s_x = 0, s_y = 0, s_time = 0\<rparr>, \<lparr>s_x = 0, s_y = 0, s_time = 0\<rparr>,
                                    \<lparr>s_x = 0, s_y = 0, s_time = 0\<rparr>, \<lparr>s_x = 0, s_y = 0, s_time = 0\<rparr>,
                                    \<lparr>s_x = 1, s_y = 0, s_time = 1000\<rparr>],
                    hist_right = []\<rparr>) \<and>
        h_wave (gs_left g) = \<lparr>isWaving = True, velocity = 1, direction = 1\<rparr>)"
proof -
  have pm: "pt_x (palm_mean wave_hand) = 1" "pt_y (palm_mean wave_hand) = 0"
    by (simp_all add: palm_mean_def wave_hand_def)
  have rec: "\<And>x0. spec_record (Some wave_hand) (five_samples x0) 1000 =
               [\<lparr>s_x = 0, s_y = 0, s_time = 0\<rparr>, \<lparr>s_x = 0, s_y = 0, s_time = 0\<rparr>,
                \<lparr>s_x = 0, s_y = 0, s_time = 0\<rparr>, \<lparr>s_x = 0, s_y = 0, s_time = 0\<rparr>,
                \<lparr>s_x = 1, s_y = 0, s_time = 1000\<rparr>]"
    by (simp add: spec_record_def five_samples_def pm Let_def)
  have a: "HandLandmarkSet (Some wave_hand)" by (simp add: wave_hand_def)
  have b: "HandLandmarkSet None" by simp
  have c: "previous_distance None = previous_distance (Some no_hands_state)"
    by (simp add: previous_distance_def no_hands_state_def)
  have d: "spec_record (Some wave_hand) (five_samples 7) 1000 =
           spec_record (Some wave_hand) (five_samples 3) 1000"
    by (simp only: rec)
  have e: "spec_record None [] 0 = spec_record None [] 99"
    by (simp add: spec_record_def)
  have f: "five_samples 7 \<noteq> five_samples 3"
    by (simp add: five_samples_def)
  have v: "spec_estimateVelocity
             ([\<lparr>s_x = 0, s_y = 0, s_time = 0\<rparr>, \<lparr>s_x = 0, s_y = 0, s_time = 0\<rparr>,
                \<lparr>s_x = 0, s_y = 0, s_time = 0\<rparr>, \<lparr>s_x = 0, s_y = 0, s_time = 0\<rparr>,
                \<lparr>s_x = 1, s_y = 0, s_time = 1000\<rparr>]) =
           \<lparr>isWaving = True, velocity = 1, direction = 1\<rparr>"
    by (simp add: spec_estimateVelocity_def Let_def)
  have n: "spec_record None [] 0 = []" by (simp add: spec_record_def)
  from gesture_state_of_recorded_buffers
         [of "Some wave_hand" None None "Some no_hands_state"
             "\<lparr>hist_left = five_samples 7, hist_right = []\<rparr>" 1000
             "\<lparr>hist_left = five_samples 3, hist_right = []\<rparr>" 1000 0 99, OF a b c]
       d e
  obtain g where
    "getGestureState (Some wave_hand) None None
            \<lparr>hist_left = five_samples 7, hist_right = []\<rparr> 1000 0 =
          Some (g, \<lparr>hist_left = [\<lparr>s_x = 0, s_y = 0, s_time = 0\<rparr>, \<lparr>s_x = 0, s_y = 0, s_time = 0\<rparr>,
                                    \<lparr>s_x = 0, s_y = 0, s_time = 0\<rparr>, \<lparr>s_x = 0, s_y = 0, s_time = 0\<rparr>,
                                    \<lparr>s_x = 1, s_y = 0, s_time = 1000\<rparr>],
                    hist_right = []\<rparr>)"
    and "getGestureState (Some wave_hand) None (Some no_hands_state)
            \<lparr>hist_left = five_samples 3, hist_right = []\<rparr> 1000 99 =
          Some (g, \<lparr>hist_left = [\<lparr>s_x = 0, s_y = 0, s_time = 0\<rparr>, \<lparr>s_x = 0, s_y = 0, s_time = 0\<rparr>,
                                    \<lparr>s_x = 0, s_y = 0, s_time = 0\<rparr>, \<lparr>s_x = 0, s_y = 0, s_time = 0\<rparr>,
                                    \<lparr>s_x = 1, s_y = 0, s_time = 1000\<rparr>],
                    hist_right = []\<rparr>)"
    and "h_wave (gs_left g) = \<lparr>isWaving = True, velocity = 1, direction = 1\<rparr>"
    by (auto simp: rec n v)
  with a b c d e f show ?thesis by blast
qed

text \<open>
  The clock is an input the claim C4 leaves out: with the same landmark sets, the same
  previous state and the same buffers, a call at clock reading 1000 reports the left hand
  waving and a call at clock reading 5 does not.
\<close>

theorem getGestureState_clock_counterexample:
  "map_option (\<lambda>(g, h). isWaving (h_wave (gs_left g)))
     (getGestureState (Some wave_hand) None None
        \<lparr>hist_left = [\<lparr>s_x = 0, s_y = 0, s_time = 0\<rparr>], hist_right = []\<rparr> 1000 0) = Some True
   \<and>
   map_option (\<lambda>(g, h). isWaving (h_wave (gs_left g)))
     (getGestureState (Some wave_hand) None None
        \<lparr>hist_left = [\<lparr>s_x = 0, s_y = 0, s_time = 0\<rparr>], hist_right = []\<rparr> 5 0) = Some False"
proof -
  have len: "length wave_hand = 21" by (simp add: wave_hand_def)
  have pm: "pt_x (palm_mean wave_hand) = 1" "pt_y (palm_mean wave_hand) = 0"
    by (simp_all add: palm_mean_def wave_hand_def)
  have w1: "detectWave (Some wave_hand) [\<lparr>s_x = 0, s_y = 0, s_time = 0\<rparr>] 1000 =
     Some (\<lparr>isWaving = True, velocity = 1, direction = 1\<rparr>,
           [\<lparr>s_x = 0, s_y = 0, s_time = 0\<rparr>, \<lparr>s_x = 1, s_y = 0, s_time = 1000\<rparr>])"
    using len
    by (simp add: detectWave_def getPalmCenter_present pm HISTORY_LENGTH_def
        WAVE_VELOCITY_THRESHOLD_def trim_history.simps)
  have w2: "detectWave (Some wave_hand) [\<lparr>s_x = 0, s_y = 0, s_time = 0\<rparr>] 5 =
     Some (no_wave,
           [\<lparr>s_x = 0, s_y = 0, s_time = 0\<rparr>, \<lparr>s_x = 1, s_y = 0, s_time = 5\<rparr>])"
    using len
    by (simp add: detectWave_def getPalmCenter_present pm HISTORY_LENGTH_def trim_history.simps)
  have w0: "detectWave None [] 0 = Some (no_wave, [])"
    by (simp add: detectWave_def)
  show ?thesis
    by (simp add: getGestureState_def w1 w2 w0 detectSpread_def detectConverge_def
        getHandsDistance_def detectGrasp_def isSameLocation_def no_wave_def
        previous_distance_def)
qed

lemma PARTICLE_COUNT_pos: "0 < PARTICLE_COUNT"
  by (simp add: PARTICLE_COUNT_def)

lemma OUTER_COUNT_pos: "0 < OUTER_COUNT"
  by (simp add: OUTER_COUNT_def)

lemma converge_loop_rest:
  "\<forall>j. i \<le> j \<and> j < limit \<longrightarrow> positions ! j = basePositions ! j \<Longrightarrow>
   converge_loop limit intensity rate basePositions i positions = positions"
proof (induction "limit - i" arbitrary: i)
  case 0
  then show ?case by (subst converge_loop.simps) simp
next
  case (Suc n)
  then have lt: "i < limit" and n: "n = limit - (i + 1)" by auto
  from Suc.prems lt have here: "positions ! i = basePositions ! i" by simp
  have val: "positions ! i + (basePositions ! i - positions ! i) * intensity * rate = positions ! i"
    using here by simp
  have "converge_loop limit intensity rate basePositions i positions =
        converge_loop limit intensity rate basePositions (i + 1) positions"
    using lt by (subst converge_loop.simps) (simp only: val list_update_id if_True)
  also have "\<dots> = positions"
    using Suc.hyps(1) [OF n] Suc.prems by simp
  finally show ?case .
qed

lemma integrate_loop_step:
  "i < limit \<Longrightarrow>
   integrate_loop limit damping i positions velocities hasMotion =
   integrate_loop limit damping (i + 3)
     (positions[i := positions ! i + velocities ! i,
                i + 1 := positions ! (i + 1) + velocities ! (i + 1),
                i + 2 := positions ! (i + 2) + velocities ! (i + 2)])
     (velocities[i := velocities ! i * damping,
                 i + 1 := velocities ! (i + 1) * damping,
                 i + 2 := velocities ! (i + 2) * damping])
     (hasMotion \<or>
      \<bar>velocities[i := velocities ! i * damping,
                 i + 1 := velocities ! (i + 1) * damping,
                 i + 2 := velocities ! (i + 2) * damping] ! i\<bar> > 0.0001)"
  by (subst integrate_loop.simps) (simp add: Let_def)

lemma integrate_loop_stop:
  "\<not> i < limit \<Longrightarrow>
   integrate_loop limit damping i positions velocities hasMotion = (positions, velocities, hasMotion)"
  by (subst integrate_loop.simps) simp


lemma integrate_loop_hasMotion:
  "snd (snd (integrate_loop limit damping i positions velocities hasMotion)) =
     (hasMotion \<or> (\<exists>k. i + 3 * k < limit \<and> \<bar>velocities ! (i + 3 * k) * damping\<bar> > 0.0001))"
  if "limit \<le> length velocities"
  using that
proof (induction "limit - i" arbitrary: i positions velocities hasMotion rule: less_induct)
  case less
  show ?case
  proof (cases "i < limit")
    case False
    then have "\<And>k. \<not> i + 3 * k < limit" by auto
    with False show ?thesis by (simp add: integrate_loop_stop)
  next
    case True
    let ?v = "velocities[i := velocities ! i * damping,
                 i + 1 := velocities ! (i + 1) * damping,
                 i + 2 := velocities ! (i + 2) * damping]"
    have len: "limit \<le> length ?v" using less.prems by simp
    have later: "\<And>k. ?v ! (i + 3 + 3 * k) = velocities ! (i + 3 + 3 * k)" by simp
    have here: "?v ! i = velocities ! i * damping"
      using True less.prems by simp
    have m: "limit - (i + 3) < limit - i" using True by auto
    have "snd (snd (integrate_loop limit damping i positions velocities hasMotion)) =
          ((hasMotion \<or> \<bar>velocities ! i * damping\<bar> > 0.0001) \<or>
           (\<exists>k. i + 3 + 3 * k < limit \<and> \<bar>velocities ! (i + 3 + 3 * k) * damping\<bar> > 0.0001))"
      unfolding integrate_loop_step [OF True] less.hyps [OF m len] here later ..
    also have "\<dots> = (hasMotion \<or> (\<exists>k. i + 3 * k < limit \<and> \<bar>velocities ! (i + 3 * k) * damping\<bar> > 0.0001))"
    proof -
      have "(\<exists>k. i + 3 * k < limit \<and> \<bar>velocities ! (i + 3 * k) * damping\<bar> > 0.0001) =
            (\<bar>velocities ! i * damping\<bar> > 0.0001 \<or>
             (\<exists>k. i + 3 + 3 * k < limit \<and> \<bar>velocities ! (i + 3 + 3 * k) * damping\<bar> > 0.0001))"
        (is "?L = (?A \<or> ?B)")
      proof
        assume ?L
        then obtain k where k: "i + 3 * k < limit" "\<bar>velocities ! (i + 3 * k) * damping\<bar> > 0.0001"
          by blast
        show "?A \<or> ?B"
        proof (cases k)
          case 0
          with k show ?thesis by simp
        next
          case (Suc k')
          then have e: "i + 3 * k = i + 3 + 3 * k'" by simp
          from k show ?thesis unfolding e by blast
        qed
      next
        assume "?A \<or> ?B"
        then show ?L
        proof
          assume ?A
          with True show ?L by (intro exI [of _ 0]) simp
        next
          assume ?B
          then obtain k' where k': "i + 3 + 3 * k' < limit"
            "\<bar>velocities ! (i + 3 + 3 * k') * damping\<bar> > 0.0001" by blast
          have e: "i + 3 * Suc k' = i + 3 + 3 * k'" by simp
          from k' have "i + 3 * Suc k' < limit \<and>
              \<bar>velocities ! (i + 3 * Suc k') * damping\<bar> > 0.0001"
            unfolding e by blast
          then show ?L by blast
        qed
      qed
      then show ?thesis by blast
    qed
    finally show ?thesis .
  qed
qed

lemma integrate_loop_positions:
  assumes "3 dvd i" and "3 dvd limit" and "limit \<le> length positions" and "j < length positions"
  shows "fst (integrate_loop limit damping i positions velocities hasMotion) ! j =
           (if i \<le> j \<and> j < limit then positions ! j + velocities ! j else positions ! j)"
  using assms
proof (induction "limit - i" arbitrary: i positions velocities hasMotion rule: less_induct)
  case less
  show ?case
  proof (cases "i < limit")
    case False
    then show ?thesis by (simp add: integrate_loop_stop)
  next
    case True
    let ?p = "positions[i := positions ! i + velocities ! i,
                i + 1 := positions ! (i + 1) + velocities ! (i + 1),
                i + 2 := positions ! (i + 2) + velocities ! (i + 2)]"
    let ?v = "velocities[i := velocities ! i * damping,
                 i + 1 := velocities ! (i + 1) * damping,
                 i + 2 := velocities ! (i + 2) * damping]"
    from True less.prems(1,2) have i3: "i + 3 \<le> limit"
      by (auto elim!: dvdE)
    have d: "3 dvd i + 3" using less.prems(1) by simp
    have len: "limit \<le> length ?p" "j < length ?p" using less.prems by simp_all
    have m: "limit - (i + 3) < limit - i" using True by auto
    have pj: "?p ! j = (if i \<le> j \<and> j < i + 3 then positions ! j + velocities ! j else positions ! j)"
      using less.prems(3,4) i3 by (auto simp: nth_list_update)
    have vj: "i + 3 \<le> j \<Longrightarrow> ?v ! j = velocities ! j" by simp
    have "fst (integrate_loop limit damping i positions velocities hasMotion) ! j =
          (if i + 3 \<le> j \<and> j < limit then ?p ! j + ?v ! j else ?p ! j)"
      unfolding integrate_loop_step [OF True]
      by (rule less.hyps [OF m d less.prems(2) len])
    also have "\<dots> = (if i \<le> j \<and> j < limit then positions ! j + velocities ! j else positions ! j)"
      using pj vj i3 by auto
    finally show ?thesis .
  qed
qed

lemma updateParticles_earthParticles:
  "earthParticles (updateParticles e deltaTime) =
     fst (integrate_loop (PARTICLE_COUNT * 3) 0.97 0 (earthParticles e) (earthParticleVelocities e) False)"
  by (simp add: updateParticles_def Let_def split: prod.splits)

lemma updateParticles_earthParticles_needsUpdate:
  "earthParticles_needsUpdate (updateParticles e deltaTime) =
     (earthParticles_needsUpdate e \<or>
      snd (snd (integrate_loop (PARTICLE_COUNT * 3) 0.97 0
                  (earthParticles e) (earthParticleVelocities e) False)))"
  by (simp add: updateParticles_def Let_def split: prod.splits)

lemma convergeParticles_dispersionAmount:
  "dispersionAmount (convergeParticles e intensity) = max 0 (dispersionAmount e - intensity * 0.15)"
  by (simp add: convergeParticles_def Let_def)

lemma convergeParticles_dispersed:
  "dispersed (convergeParticles e intensity) =
     (if max 0 (dispersionAmount e - intensity * 0.15) \<le> 0 then False else dispersed e)"
  by (simp add: convergeParticles_def Let_def)

lemma convergeParticles_earthParticles:
  "earthParticles (convergeParticles e intensity) =
     converge_loop (PARTICLE_COUNT * 3) intensity 0.12 (earthParticlePositions e) 0 (earthParticles e)"
  by (simp add: convergeParticles_def Let_def)

lemma convergeParticles_particles:
  "particles (convergeParticles e intensity) =
     converge_loop (OUTER_COUNT * 3) intensity 0.1 (particlePositions e) 0 (particles e)"
  by (simp add: convergeParticles_def Let_def)

lemma disperseParticles_dispersionAmount:
  "dispersionAmount (disperseParticles e intensity) = min 1 (dispersionAmount e + intensity * 0.1)"
  by (simp add: disperseParticles_def Let_def)

lemma disperseParticles_dispersed: "dispersed (disperseParticles e intensity)"
  by (simp add: disperseParticles_def Let_def)

text \<open>
  Claim C9. With the dispersion amount in \<open>[0, 1]\<close> and an intensity in \<open>(0, 1]\<close>:
  \<open>disperseParticles\<close> adds \<open>intensity * 0.1\<close> and clamps at 1, \<open>convergeParticles\<close>
  subtracts \<open>intensity * 0.15\<close> and clamps at 0, the amount stays in \<open>[0, 1]\<close>, and the
  \<open>dispersed\<close> flag is cleared when the amount reaches 0. Converging an Earth whose live
  positions are its rest positions leaves the positions as they are, and an amount of 0
  stays 0.
\<close>

theorem dispersionAmount_range:
  assumes "0 < intensity" and "intensity \<le> 1"
    and "0 \<le> dispersionAmount e" and "dispersionAmount e \<le> 1"
  shows "dispersionAmount (disperseParticles e intensity) = min 1 (dispersionAmount e + intensity * 0.1)
       \<and> 0 \<le> dispersionAmount (disperseParticles e intensity)
       \<and> dispersionAmount (disperseParticles e intensity) \<le> 1
       \<and> dispersionAmount (convergeParticles e intensity) = max 0 (dispersionAmount e - intensity * 0.15)
       \<and> 0 \<le> dispersionAmount (convergeParticles e intensity)
       \<and> dispersionAmount (convergeParticles e intensity) \<le> 1
       \<and> (dispersionAmount (convergeParticles e intensity) = 0 \<longrightarrow>
            \<not> dispersed (convergeParticles e intensity))
       \<and> (earthParticles e = earthParticlePositions e \<and> particles e = particlePositions e \<longrightarrow>
            earthParticles (convergeParticles e intensity) = earthParticles e \<and>
            particles (convergeParticles e intensity) = particles e)
       \<and> (dispersionAmount e = 0 \<longrightarrow> dispersionAmount (convergeParticles e intensity) = 0)"
proof -
  have d: "0 \<le> min 1 (dispersionAmount e + intensity * 0.1)"
    "min 1 (dispersionAmount e + intensity * 0.1) \<le> 1"
    using assms by auto
  have c: "0 \<le> max 0 (dispersionAmount e - intensity * 0.15)"
    "max 0 (dispersionAmount e - intensity * 0.15) \<le> 1"
    using assms by auto
  have z: "dispersionAmount e = 0 \<longrightarrow> max 0 (dispersionAmount e - intensity * 0.15) = 0"
    using assms by auto
  have r: "earthParticles e = earthParticlePositions e \<and> particles e = particlePositions e \<longrightarrow>
            earthParticles (convergeParticles e intensity) = earthParticles e \<and>
            particles (convergeParticles e intensity) = particles e"
    by (simp add: convergeParticles_earthParticles convergeParticles_particles converge_loop_rest)
  have f: "dispersionAmount (convergeParticles e intensity) = 0 \<longrightarrow>
            \<not> dispersed (convergeParticles e intensity)"
    by (simp add: convergeParticles_dispersionAmount convergeParticles_dispersed)
  show ?thesis
    unfolding disperseParticles_dispersionAmount convergeParticles_dispersionAmount
    using d c z r f
    unfolding convergeParticles_dispersionAmount
    by blast
qed

theorem dispersionAmount_range_witness:
  "(0::real) < 1 \<and> (1::real) \<le> 1 \<and> dispersionAmount fresh_earth = 0 \<and>
   earthParticles fresh_earth = earthParticlePositions fresh_earth \<and>
   particles fresh_earth = particlePositions fresh_earth \<and>
   dispersionAmount (disperseParticles fresh_earth 1) = 0.1 \<and>
   dispersionAmount (convergeParticles fresh_earth 1) = 0 \<and>
   \<not> dispersed (convergeParticles fresh_earth 1) \<and>
   earthParticles (convergeParticles fresh_earth 1) = earthParticles fresh_earth \<and>
   particles (convergeParticles fresh_earth 1) = particles fresh_earth"
proof -
  have a: "dispersionAmount fresh_earth = 0"
    and b: "earthParticles fresh_earth = earthParticlePositions fresh_earth"
    and c: "particles fresh_earth = particlePositions fresh_earth"
    by (simp_all add: fresh_earth_def createEarthInstance_def)
  have h: "(0::real) < 1" "(1::real) \<le> 1" "0 \<le> dispersionAmount fresh_earth"
    "dispersionAmount fresh_earth \<le> 1"
    by (simp_all add: a)
  from dispersionAmount_range [OF h] a b c show ?thesis by simp
qed

lemma getEarthMode_SINGLE: "(getEarthMode w = SINGLE) = (\<not> isDualMode w \<and> \<not> isMerging w)"
  by (simp add: getEarthMode_def)

lemma getEarthMode_DUAL: "(getEarthMode w = DUAL) = (isDualMode w \<and> \<not> isMerging w)"
  by (simp add: getEarthMode_def)

lemma getEarthMode_MERGING: "(getEarthMode w = MERGING) = isMerging w"
  by (simp add: getEarthMode_def)

lemma spawnDualEarths_dual: "isDualMode w \<Longrightarrow> spawnDualEarths a b w = w"
  by (simp add: spawnDualEarths_def)

lemma spawnEvaluation_dual: "isDualMode w \<Longrightarrow> spawnEvaluation g env w = w"
  by (simp add: spawnEvaluation_def isDualEarthMode_def)

text \<open>
  Claim C6. In state SINGLE with cooldown 0 and both hands detected, the spawn evaluation
  of the frame gives state DUAL with cooldown 90, creates the left and the right Earth at
  \<open>x = -1.2\<close> and \<open>x = 1.2\<close> with scale 0.7 and adds them to the scene, and hides the
  primary Earth, which stays in the scene. A second spawn evaluation, or a second call of
  \<open>spawnDualEarths\<close>, in the resulting state changes nothing.
\<close>

theorem spawn_once:
  assumes "getEarthMode w = SINGLE" and "dualEarthCooldown w = 0"
    and "b_detected (bothHands g)" and "earthGroup w = Some m"
  shows "getEarthMode (spawnEvaluation g env w) = DUAL
       \<and> dualEarthCooldown (spawnEvaluation g env w) = 90
       \<and> leftEarth (spawnEvaluation g env w) =
           Some ((createEarthInstance (fst (env_spawnLeft env)) (snd (env_spawnLeft env)))
                   \<lparr>position_x := -1.2, position_y := 0, position_z := -3,
                    scale := 0.7, e_name := ''leftEarth''\<rparr>)
       \<and> rightEarth (spawnEvaluation g env w) =
           Some ((createEarthInstance (fst (env_spawnRight env)) (snd (env_spawnRight env)))
                   \<lparr>position_x := 1.2, position_y := 0, position_z := -3,
                    scale := 0.7, e_name := ''rightEarth''\<rparr>)
       \<and> scene (spawnEvaluation g env w) = scene w @ [''leftEarth'', ''rightEarth'']
       \<and> earthGroup (spawnEvaluation g env w) = Some (m\<lparr>visible := False\<rparr>)
       \<and> spawnEvaluation g' env' (spawnEvaluation g env w) = spawnEvaluation g env w
       \<and> spawnDualEarths a b (spawnEvaluation g env w) = spawnEvaluation g env w"
proof -
  have s: "\<not> isDualMode w" "\<not> isMerging w"
    using assms(1) by (simp_all add: getEarthMode_SINGLE)
  have d: "isDualMode (spawnEvaluation g env w)"
    using s assms(2,3,4)
    by (simp add: spawnEvaluation_def isDualEarthMode_def spawnDualEarths_def Let_def)
  have "\<not> isMerging (spawnEvaluation g env w)"
    using s assms(2,3,4)
    by (simp add: spawnEvaluation_def isDualEarthMode_def spawnDualEarths_def Let_def)
  with d have 1: "getEarthMode (spawnEvaluation g env w) = DUAL"
    by (simp add: getEarthMode_DUAL)
  have 2: "dualEarthCooldown (spawnEvaluation g env w) = 90"
    using s assms(2,3,4)
    by (simp add: spawnEvaluation_def isDualEarthMode_def)
  have 3: "leftEarth (spawnEvaluation g env w) =
           Some ((createEarthInstance (fst (env_spawnLeft env)) (snd (env_spawnLeft env)))
                   \<lparr>position_x := -1.2, position_y := 0, position_z := -3,
                    scale := 0.7, e_name := ''leftEarth''\<rparr>)"
    using s assms(2,3,4)
    by (simp add: spawnEvaluation_def isDualEarthMode_def spawnDualEarths_def Let_def)
  have 4: "rightEarth (spawnEvaluation g env w) =
           Some ((createEarthInstance (fst (env_spawnRight env)) (snd (env_spawnRight env)))
                   \<lparr>position_x := 1.2, position_y := 0, position_z := -3,
                    scale := 0.7, e_name := ''rightEarth''\<rparr>)"
    using s assms(2,3,4)
    by (simp add: spawnEvaluation_def isDualEarthMode_def spawnDualEarths_def Let_def)
  have 5: "scene (spawnEvaluation g env w) = scene w @ [''leftEarth'', ''rightEarth'']"
    using s assms(2,3,4)
    by (simp add: spawnEvaluation_def isDualEarthMode_def spawnDualEarths_def Let_def)
  have 6: "earthGroup (spawnEvaluation g env w) = Some (m\<lparr>visible := False\<rparr>)"
    using s assms(2,3,4)
    by (simp add: spawnEvaluation_def isDualEarthMode_def spawnDualEarths_def Let_def)
  note 7 = spawnEvaluation_dual [OF d, of g' env'] and 8 = spawnDualEarths_dual [OF d, of a b]
  from 1 2 3 4 5 6 7 8 show ?thesis by blast
qed

lemma start_world_facts:
  "getEarthMode start_world = SINGLE" "dualEarthCooldown start_world = 0"
  "scene start_world = [''mainEarth'']"
  "earthGroup start_world =
     Some (fresh_earth\<lparr>position_x := 0, position_y := 0, position_z := -3, e_name := ''mainEarth''\<rparr>)"
  by (simp_all add: start_world_def initEarth_def getEarthMode_def fresh_earth_def)

theorem spawn_once_witness:
  "getEarthMode start_world = SINGLE \<and> dualEarthCooldown start_world = 0 \<and>
   b_detected (bothHands both_detected_state) \<and>
   getEarthMode (spawnEvaluation both_detected_state no_hands_env start_world) = DUAL \<and>
   dualEarthCooldown (spawnEvaluation both_detected_state no_hands_env start_world) = 90 \<and>
   scene (spawnEvaluation both_detected_state no_hands_env start_world) =
     [''mainEarth'', ''leftEarth'', ''rightEarth''] \<and>
   map_option visible (earthGroup (spawnEvaluation both_detected_state no_hands_env start_world)) =
     Some False \<and>
   spawnEvaluation both_detected_state no_hands_env
     (spawnEvaluation both_detected_state no_hands_env start_world) =
     spawnEvaluation both_detected_state no_hands_env start_world"
proof -
  have b: "b_detected (bothHands both_detected_state)"
    by (simp add: both_detected_state_def)
  from spawn_once [OF start_world_facts(1,2) b start_world_facts(4),
      of no_hands_env both_detected_state no_hands_env]
    start_world_facts b
  show ?thesis by simp
qed

lemma dual_world_facts:
  "getEarthMode dual_world = DUAL" "dualEarthCooldown dual_world = 0"
  "leftEarth dual_world =
     Some (fresh_earth\<lparr>position_x := -1.2, position_y := 0, position_z := -3,
                        scale := 0.7, e_name := ''leftEarth''\<rparr>)"
  "rightEarth dual_world =
     Some (fresh_earth\<lparr>position_x := 1.2, position_y := 0, position_z := -3,
                        scale := 0.7, e_name := ''rightEarth''\<rparr>)"
  "earthGroup dual_world =
     Some (fresh_earth\<lparr>position_x := 0, position_y := 0, position_z := -3,
                        e_name := ''mainEarth'', visible := False\<rparr>)"
  "scene dual_world = [''mainEarth'', ''leftEarth'', ''rightEarth'']"
  "isDualMode dual_world" "\<not> isMerging dual_world"
  by (simp_all add: dual_world_def spawnDualEarths_def start_world_def initEarth_def
      no_hands_env_def getEarthMode_def fresh_earth_def Let_def)

text \<open>
  Claim C2, as the code has it. From state DUAL with both secondary Earths,
  \<open>mergeEarths\<close> gives state MERGING. A run of the merge animation at 1000 ms after the
  start leaves state SINGLE, removes both secondary Earths from the scene and forgets them,
  and makes the primary Earth visible with scale 1. A run at 500 ms (progress 0.5) keeps
  state MERGING and puts each secondary Earth at its offset (\<open>-1.2\<close>, \<open>1.2\<close>) times
  \<open>1 - eased\<close>, that is times \<open>(1 - 0.5)\<^sup>3\<close>.
\<close>

theorem merge_animation:
  assumes "getEarthMode w = DUAL" and "leftEarth w = Some l" and "rightEarth w = Some r"
    and "earthGroup w = Some m"
  shows "getEarthMode (mergeEarths t0 w) = MERGING
       \<and> getEarthMode (mergeAnimation (t0 + 1000) (mergeEarths t0 w)) = SINGLE
       \<and> leftEarth (mergeAnimation (t0 + 1000) (mergeEarths t0 w)) = None
       \<and> rightEarth (mergeAnimation (t0 + 1000) (mergeEarths t0 w)) = None
       \<and> e_name l \<notin> set (scene (mergeAnimation (t0 + 1000) (mergeEarths t0 w)))
       \<and> e_name r \<notin> set (scene (mergeAnimation (t0 + 1000) (mergeEarths t0 w)))
       \<and> earthGroup (mergeAnimation (t0 + 1000) (mergeEarths t0 w)) =
           Some (m\<lparr>visible := True, scale := 1\<rparr>)
       \<and> getEarthMode (mergeAnimation (t0 + 500) (mergeEarths t0 w)) = MERGING
       \<and> map_option position_x (leftEarth (mergeAnimation (t0 + 500) (mergeEarths t0 w))) =
           Some (- 1.2 * (1 - 0.5) ^ 3)
       \<and> map_option position_x (rightEarth (mergeAnimation (t0 + 500) (mergeEarths t0 w))) =
           Some (1.2 * (1 - 0.5) ^ 3)"
proof -
  have d: "isDualMode w" "\<not> isMerging w"
    using assms(1) by (simp_all add: getEarthMode_DUAL)
  have me: "mergeEarths t0 w = w\<lparr>isMerging := True, merge_pending := Some t0\<rparr>"
    using d by (simp add: mergeEarths_def)
  have 1: "getEarthMode (mergeEarths t0 w) = MERGING"
    by (simp add: me getEarthMode_def)
  have full: "mergeAnimation (t0 + 1000) (mergeEarths t0 w) =
        w\<lparr>scene := removeAll (e_name r) (removeAll (e_name l) (scene w)),
          leftEarth := None, rightEarth := None,
          earthGroup := Some (m\<lparr>visible := True, scale := 1\<rparr>),
          isDualMode := False, isMerging := False, merge_pending := None\<rparr>"
    using assms(2,3,4) by (simp add: me mergeAnimation_def Let_def)
  have 2: "getEarthMode (mergeAnimation (t0 + 1000) (mergeEarths t0 w)) = SINGLE"
    and 3: "leftEarth (mergeAnimation (t0 + 1000) (mergeEarths t0 w)) = None"
    and 4: "rightEarth (mergeAnimation (t0 + 1000) (mergeEarths t0 w)) = None"
    and 5: "e_name l \<notin> set (scene (mergeAnimation (t0 + 1000) (mergeEarths t0 w)))"
    and 6: "e_name r \<notin> set (scene (mergeAnimation (t0 + 1000) (mergeEarths t0 w)))"
    and 7: "earthGroup (mergeAnimation (t0 + 1000) (mergeEarths t0 w)) =
           Some (m\<lparr>visible := True, scale := 1\<rparr>)"
    unfolding full by (simp_all add: getEarthMode_def)
  have half: "mergeAnimation (t0 + 500) (mergeEarths t0 w) =
        w\<lparr>isMerging := True, merge_pending := Some t0,
          leftEarth := Some (l\<lparr>position_x := - 1.2 * (1 - (1 - (1 - 0.5) ^ 3)),
                                scale := (0.7 + 0.3 * (1 - (1 - 0.5) ^ 3)) * (1 - 0.5 * 0.5)\<rparr>),
          rightEarth := Some (r\<lparr>position_x := 1.2 * (1 - (1 - (1 - 0.5) ^ 3)),
                                 scale := (0.7 + 0.3 * (1 - (1 - 0.5) ^ 3)) * (1 - 0.5 * 0.5)\<rparr>)\<rparr>"
    using assms(2,3,4) by (simp add: me mergeAnimation_def Let_def)
  have 8: "getEarthMode (mergeAnimation (t0 + 500) (mergeEarths t0 w)) = MERGING"
    and 9: "map_option position_x (leftEarth (mergeAnimation (t0 + 500) (mergeEarths t0 w))) =
           Some (- 1.2 * (1 - 0.5) ^ 3)"
    and 10: "map_option position_x (rightEarth (mergeAnimation (t0 + 500) (mergeEarths t0 w))) =
           Some (1.2 * (1 - 0.5) ^ 3)"
    unfolding half by (simp_all add: getEarthMode_def)
  from 1 2 3 4 5 6 7 8 9 10 show ?thesis by blast
qed

theorem merge_animation_witness:
  "getEarthMode dual_world = DUAL \<and>
   getEarthMode (mergeEarths 0 dual_world) = MERGING \<and>
   getEarthMode (mergeAnimation 1000 (mergeEarths 0 dual_world)) = SINGLE \<and>
   leftEarth (mergeAnimation 1000 (mergeEarths 0 dual_world)) = None \<and>
   rightEarth (mergeAnimation 1000 (mergeEarths 0 dual_world)) = None \<and>
   scene (mergeAnimation 1000 (mergeEarths 0 dual_world)) = [''mainEarth''] \<and>
   map_option visible (earthGroup (mergeAnimation 1000 (mergeEarths 0 dual_world))) = Some True \<and>
   map_option scale (earthGroup (mergeAnimation 1000 (mergeEarths 0 dual_world))) = Some 1 \<and>
   map_option position_x (leftEarth (mergeAnimation 500 (mergeEarths 0 dual_world))) = Some (- 0.15) \<and>
   map_option position_x (rightEarth (mergeAnimation 500 (mergeEarths 0 dual_world))) = Some 0.15"
proof -
  have sc: "scene (mergeAnimation 1000 (mergeEarths 0 dual_world)) = [''mainEarth'']"
    by (simp add: mergeEarths_def mergeAnimation_def dual_world_facts Let_def)
  from merge_animation [OF dual_world_facts(1,3,4,5), of 0] dual_world_facts(1) sc
  show ?thesis by (simp add: power3_eq_cube)
qed

text \<open>
  The position the claim C2 gives for progress 0.5, the offset times
  \<open>1 - (1 - 0.5)\<^sup>3\<close>, is not the one the animation sets: 500 ms after the start the left
  Earth is at \<open>x = -0.15\<close>, and \<open>-1.2 * (1 - (1 - 0.5)\<^sup>3) = -1.05\<close>.
\<close>

theorem merge_animation_counterexample:
  "map_option position_x (leftEarth (mergeAnimation 500 (mergeEarths 0 dual_world))) = Some (- 0.15)
   \<and> map_option position_x (leftEarth (mergeAnimation 500 (mergeEarths 0 dual_world)))
       \<noteq> Some (- 1.2 * (1 - (1 - 0.5) ^ 3))"
  by (simp add: mergeEarths_def mergeAnimation_def dual_world_facts Let_def power3_eq_cube)

lemma mergeEarths_isMerging:
  "isMerging (mergeEarths t w) = (isMerging w \<or> isDualMode w)"
  by (auto simp: mergeEarths_def)

lemma mergeEarths_isDualMode: "isDualMode (mergeEarths t w) = isDualMode w"
  by (simp add: mergeEarths_def)

lemma mergeEarths_dualEarthCooldown: "dualEarthCooldown (mergeEarths t w) = dualEarthCooldown w"
  by (simp add: mergeEarths_def)

lemma dualEarthControl_isDualMode: "isDualMode (dualEarthControl g env w) = isDualMode w"
  by (simp add: dualEarthControl_def Let_def mergeEarths_isDualMode)

lemma dualEarthControl_isMerging:
  assumes "isDualMode w" and "\<not> isMerging w"
  shows "isMerging (dualEarthControl g env w) =
           (b_grasping (bothHands g) \<or>
            (\<not> b_detected (bothHands g) \<and> (h_detected (gs_left g) \<or> h_detected (gs_right g)) \<and>
             dualEarthCooldown w \<le> 0))"
  using assms
  by (simp add: dualEarthControl_def Let_def mergeEarths_isMerging mergeEarths_isDualMode
      mergeEarths_dualEarthCooldown)

lemma processGestures_dual:
  assumes "isDualMode w"
    and "getGestureState (env_leftHand env) (env_rightHand env) (previousGestureState w)
           (w_handHistory w) (env_nowLeft env) (env_nowRight env) = Some (g, h)"
  shows "processGestures env w =
           Some ((dualEarthControl g env
                   (w\<lparr>w_handHistory := h,
                      dualEarthCooldown := max 0 (dualEarthCooldown w - 1)\<rparr>))
                 \<lparr>previousGestureState := Some g\<rparr>)"
  using assms
  by (simp add: processGestures_def spawnEvaluation_def isDualEarthMode_def)

text \<open>
  Claim C1, as the code has it. In state DUAL, for hands with their 21 landmarks, the
  frame returns, and it ends in state MERGING exactly when the pair grasp is true, or
  exactly one hand is detected and the cooldown, after the decrement of this frame, is
  \<open>\<le> 0\<close> (it was \<open>\<le> 1\<close> at the start of the frame); otherwise the state stays DUAL.
  In particular a frame without hands stays DUAL.
\<close>

theorem merge_trigger:
  assumes "getEarthMode w = DUAL"
    and "HandLandmarkSet (env_leftHand env)" and "HandLandmarkSet (env_rightHand env)"
  shows "\<exists>g h w'.
           getGestureState (env_leftHand env) (env_rightHand env) (previousGestureState w)
             (w_handHistory w) (env_nowLeft env) (env_nowRight env) = Some (g, h) \<and>
           processGestures env w = Some w' \<and>
           (getEarthMode w' = MERGING) =
             (b_grasping (bothHands g) \<or>
              ((env_leftHand env = None) \<noteq> (env_rightHand env = None)) \<and> dualEarthCooldown w \<le> 1) \<and>
           (getEarthMode w' \<noteq> MERGING \<longrightarrow> getEarthMode w' = DUAL) \<and>
           (env_leftHand env = None \<and> env_rightHand env = None \<longrightarrow> getEarthMode w' = DUAL)"
proof -
  have d: "isDualMode w" "\<not> isMerging w"
    using assms(1) by (simp_all add: getEarthMode_DUAL)
  obtain g h where gh:
    "getGestureState (env_leftHand env) (env_rightHand env) (previousGestureState w)
       (w_handHistory w) (env_nowLeft env) (env_nowRight env) = Some (g, h)"
    using getGestureState_returns [OF assms(2,3)] by blast
  note f = getGestureState_fields [OF gh]
  let ?w1 = "w\<lparr>w_handHistory := h, dualEarthCooldown := max 0 (dualEarthCooldown w - 1)\<rparr>"
  let ?w' = "(dualEarthControl g env ?w1)\<lparr>previousGestureState := Some g\<rparr>"
  have pg: "processGestures env w = Some ?w'"
    by (rule processGestures_dual [OF d(1) gh])
  have d1: "isDualMode ?w1" "\<not> isMerging ?w1" using d by simp_all
  have dm: "isDualMode ?w'"
    using d1 by (simp add: dualEarthControl_isDualMode)
  have one: "(\<not> b_detected (bothHands g) \<and> (h_detected (gs_left g) \<or> h_detected (gs_right g))) =
             ((env_leftHand env = None) \<noteq> (env_rightHand env = None))"
    unfolding f(1,2,5) by auto
  have m: "isMerging ?w' =
            (b_grasping (bothHands g) \<or>
             ((env_leftHand env = None) \<noteq> (env_rightHand env = None)) \<and> dualEarthCooldown w \<le> 1)"
    using dualEarthControl_isMerging [OF d1, of g env] one by auto
  have none: "env_leftHand env = None \<and> env_rightHand env = None \<longrightarrow> \<not> b_grasping (bothHands g)"
    using f(6) by (auto simp: detectGrasp_def)
  have 1: "(getEarthMode ?w' = MERGING) =
             (b_grasping (bothHands g) \<or>
              ((env_leftHand env = None) \<noteq> (env_rightHand env = None)) \<and> dualEarthCooldown w \<le> 1)"
    unfolding getEarthMode_MERGING by (rule m)
  have 2: "getEarthMode ?w' \<noteq> MERGING \<longrightarrow> getEarthMode ?w' = DUAL"
    using dm by (simp add: getEarthMode_def)
  have 3: "env_leftHand env = None \<and> env_rightHand env = None \<longrightarrow> getEarthMode ?w' = DUAL"
    using 1 2 none by auto
  show ?thesis
    by (intro exI [of _ g] exI [of _ h] exI [of _ ?w'] conjI gh pg 1 2 3)
qed

theorem merge_trigger_witness:
  "getEarthMode dual_world = DUAL \<and>
   HandLandmarkSet (env_leftHand no_hands_env) \<and> HandLandmarkSet (env_rightHand no_hands_env) \<and>
   HandLandmarkSet (env_leftHand left_hand_env) \<and> HandLandmarkSet (env_rightHand left_hand_env) \<and>
   env_leftHand no_hands_env = None \<and> env_rightHand no_hands_env = None \<and>
   (\<exists>w'. processGestures no_hands_env dual_world = Some w' \<and>
         getEarthMode w' \<noteq> MERGING \<and> getEarthMode w' = DUAL) \<and>
   (\<exists>w'. processGestures left_hand_env dual_world = Some w' \<and> getEarthMode w' = MERGING)"
proof -
  have n: "env_leftHand no_hands_env = None" "env_rightHand no_hands_env = None"
    by (simp_all add: no_hands_env_def)
  have l: "env_leftHand left_hand_env = Some fist_hand" "env_rightHand left_hand_env = None"
    by (simp_all add: left_hand_env_def no_hands_env_def)
  have hn: "HandLandmarkSet (env_leftHand no_hands_env)" "HandLandmarkSet (env_rightHand no_hands_env)"
    by (simp_all add: n)
  have hl: "HandLandmarkSet (env_leftHand left_hand_env)" "HandLandmarkSet (env_rightHand left_hand_env)"
    by (simp_all add: l fist_hand_def)
  from merge_trigger [OF dual_world_facts(1) hn]
  obtain w1 where 1: "processGestures no_hands_env dual_world = Some w1"
    and "getEarthMode w1 \<noteq> MERGING \<longrightarrow> getEarthMode w1 = DUAL"
    and "env_leftHand no_hands_env = None \<and> env_rightHand no_hands_env = None \<longrightarrow>
         getEarthMode w1 = DUAL"
    by blast
  with n have 2: "getEarthMode w1 = DUAL" "getEarthMode w1 \<noteq> MERGING" by simp_all
  have 3: "\<exists>w'. processGestures left_hand_env dual_world = Some w' \<and> getEarthMode w' = MERGING"
    using merge_trigger [OF dual_world_facts(1) hl]
    by (auto simp: l dual_world_facts(2))
  from dual_world_facts(1) hn hl n 1 2 3 show ?thesis by blast
qed

text \<open>
  A frame without hands does not start the merge, against the claim C1: from state DUAL
  with cooldown 0, the frame with zero hands detected ends in state DUAL.
\<close>

theorem merge_trigger_counterexample:
  "getEarthMode dual_world = DUAL \<and> dualEarthCooldown dual_world \<le> 0 \<and>
   env_leftHand no_hands_env = None \<and> env_rightHand no_hands_env = None \<and>
   map_option getEarthMode (processGestures no_hands_env dual_world) = Some DUAL"
proof -
  have n: "env_leftHand no_hands_env = None" "env_rightHand no_hands_env = None"
    by (simp_all add: no_hands_env_def)
  have gs: "getGestureState (env_leftHand no_hands_env) (env_rightHand no_hands_env)
              (previousGestureState dual_world) (w_handHistory dual_world)
              (env_nowLeft no_hands_env) (env_nowRight no_hands_env) =
            Some (no_hands_state, w_handHistory dual_world)"
    unfolding n by (rule getGestureState_absent)
  let ?w1 = "dual_world\<lparr>w_handHistory := w_handHistory dual_world,
                dualEarthCooldown := max 0 (dualEarthCooldown dual_world - 1)\<rparr>"
  have d1: "isDualMode ?w1" "\<not> isMerging ?w1"
    by (simp_all add: dual_world_facts)
  have m: "\<not> isMerging (dualEarthControl no_hands_state no_hands_env ?w1)"
    unfolding dualEarthControl_isMerging [OF d1]
    by (simp add: no_hands_state_def no_hand_def)
  have d: "isDualMode (dualEarthControl no_hands_state no_hands_env ?w1)"
    unfolding dualEarthControl_isDualMode by (rule d1(1))
  have "map_option getEarthMode (processGestures no_hands_env dual_world) = Some DUAL"
    unfolding processGestures_dual [OF dual_world_facts(7) gs]
    using m d by (simp add: getEarthMode_def)
  with n dual_world_facts(1,2) show ?thesis by simp
qed

lemma handControl_present: "(handControl h target = None) = (target = None)"
  by (cases target) (simp_all add: handControl_def Let_def)

lemma dualEarthControl_dualEarthCooldown:
  "dualEarthCooldown (dualEarthControl g env w) = dualEarthCooldown w"
  by (simp add: dualEarthControl_def Let_def mergeEarths_dualEarthCooldown)

text \<open>
  The whole frame of a spawn: the cooldown set to 90 by the spawn evaluation is decremented
  in the same frame, so the frame that spawns ends in dual mode with cooldown 89.
\<close>

lemma spawn_frame_cooldown:
  assumes "getEarthMode w = SINGLE" and "dualEarthCooldown w = 0"
    and "env_leftHand env = Some l" and "length l = 21"
    and "env_rightHand env = Some r" and "length r = 21"
  shows "\<exists>w'. processGestures env w = Some w' \<and> isDualMode w' \<and> dualEarthCooldown w' = 89"
proof -
  have s: "\<not> isDualMode w" "\<not> isMerging w"
    using assms(1) by (simp_all add: getEarthMode_SINGLE)
  obtain g h where gh:
    "getGestureState (env_leftHand env) (env_rightHand env) (previousGestureState w)
       (w_handHistory w) (env_nowLeft env) (env_nowRight env) = Some (g, h)"
  proof -
    have "HandLandmarkSet (env_leftHand env)" "HandLandmarkSet (env_rightHand env)"
      using assms(3-6) by simp_all
    from getGestureState_returns [OF this] that show ?thesis by blast
  qed
  have b: "b_detected (bothHands g)"
    using getGestureState_fields(5) [OF gh] assms(3,5) by simp
  let ?w0 = "w\<lparr>w_handHistory := h\<rparr>"
  let ?w1 = "spawnEvaluation g env ?w0"
  have sp: "?w1 = (spawnDualEarths (env_spawnLeft env) (env_spawnRight env) ?w0)
                    \<lparr>dualEarthCooldown := 90\<rparr>"
    using s b assms(2) by (simp add: spawnEvaluation_def isDualEarthMode_def)
  have d: "isDualMode ?w1"
    unfolding sp using s by (simp add: spawnDualEarths_def Let_def split: option.splits)
  have c: "dualEarthCooldown ?w1 = 90"
    unfolding sp by simp
  let ?w2 = "?w1\<lparr>dualEarthCooldown := max 0 (dualEarthCooldown ?w1 - 1)\<rparr>"
  have d2: "isDualMode ?w2" using d by simp
  have c2: "dualEarthCooldown ?w2 = 89" using c by simp
  have pg: "processGestures env w =
              Some ((dualEarthControl g env ?w2)\<lparr>previousGestureState := Some g\<rparr>)"
    using d2 by (simp add: processGestures_def gh isDualEarthMode_def Let_def)
  show ?thesis
    unfolding pg
    using d2 c2
    by (simp add: dualEarthControl_isDualMode dualEarthControl_dualEarthCooldown)
qed

lemma body_arrays_updateParticles_cong:
  "body_arrays e = body_arrays e' \<Longrightarrow>
   body_arrays (updateParticles e deltaTime) = body_arrays (updateParticles e' deltaTime)"
  by (simp add: body_arrays_def updateParticles_def Let_def split: prod.splits)

lemma updateEarth_leftEarth:
  "leftEarth (updateEarth deltaTime w) =
     (if isDualMode w \<and> \<not> isMerging w
      then map_option (\<lambda>l. updateParticles (l\<lparr>rotation_y := rotation_y l + deltaTime * 0.15\<rparr>) deltaTime)
             (leftEarth w)
      else leftEarth w)"
  by (auto simp add: updateEarth_def Let_def split: option.splits)

lemma updateEarth_rightEarth:
  "rightEarth (updateEarth deltaTime w) =
     (if isDualMode w \<and> \<not> isMerging w
      then map_option (\<lambda>r. updateParticles (r\<lparr>rotation_y := rotation_y r - deltaTime * 0.15\<rparr>) deltaTime)
             (rightEarth w)
      else rightEarth w)"
  by (auto simp add: updateEarth_def Let_def split: option.splits)

lemma updateEarth_earthGroup:
  "earthGroup (updateEarth deltaTime w) =
     map_option (\<lambda>g. if visible g
        then updateParticles
               (g\<lparr>rotation_x := earthRotation_x w,
                  rotation_y := rotation_y g + deltaTime * 0.1 + earthRotation_y w * 0.02,
                  scale := earthScale w + (targetScale w - earthScale w) * 0.1\<rparr>) deltaTime
        else g) (earthGroup w)"
  by (auto simp add: updateEarth_def Let_def split: option.splits)

lemma body_arrays_updateParticles_rotation:
  "body_arrays (updateParticles (e\<lparr>rotation_y := a\<rparr>) deltaTime) =
   body_arrays (updateParticles e deltaTime)"
  by (rule body_arrays_updateParticles_cong) (simp add: body_arrays_def)

lemma body_arrays_updateParticles_transform:
  "body_arrays (updateParticles (e\<lparr>rotation_x := a, rotation_y := b, scale := c\<rparr>) deltaTime) =
   body_arrays (updateParticles e deltaTime)"
  by (rule body_arrays_updateParticles_cong) (simp add: body_arrays_def)

text \<open>
  Claim C3, as the code has it. A frame first routes the gestures and evaluates spawn and
  merge (\<open>processGestures\<close>), then \<open>updateEarth\<close> runs the physics step on the state that
  results: once on the two bodies of the primary Earth when it is visible, once on the two
  bodies of each secondary Earth when the state is DUAL and not MERGING. The bodies of a
  hidden primary Earth, and of the secondary Earths while MERGING, are left as they are.
\<close>

theorem animate_integrates:
  assumes "processGestures env w = Some w1"
  shows "\<exists>w2. animate deltaTime env w = Some w2
       \<and> map_option body_arrays (earthGroup w2) =
           map_option (\<lambda>g. if visible g then body_arrays (updateParticles g deltaTime)
                            else body_arrays g) (earthGroup w1)
       \<and> map_option body_arrays (leftEarth w2) =
           map_option (\<lambda>l. if getEarthMode w1 = DUAL then body_arrays (updateParticles l deltaTime)
                            else body_arrays l) (leftEarth w1)
       \<and> map_option body_arrays (rightEarth w2) =
           map_option (\<lambda>r. if getEarthMode w1 = DUAL then body_arrays (updateParticles r deltaTime)
                            else body_arrays r) (rightEarth w1)"
proof -
  have a: "animate deltaTime env w = Some (updateEarth deltaTime w1)"
    using assms by (simp add: animate_def)
  have g: "map_option body_arrays (earthGroup (updateEarth deltaTime w1)) =
           map_option (\<lambda>g. if visible g then body_arrays (updateParticles g deltaTime)
                            else body_arrays g) (earthGroup w1)"
    unfolding updateEarth_earthGroup
    by (cases "earthGroup w1") (simp_all add: body_arrays_updateParticles_transform)
  have l: "map_option body_arrays (leftEarth (updateEarth deltaTime w1)) =
           map_option (\<lambda>l. if getEarthMode w1 = DUAL then body_arrays (updateParticles l deltaTime)
                            else body_arrays l) (leftEarth w1)"
    unfolding updateEarth_leftEarth getEarthMode_DUAL
    by (cases "leftEarth w1") (simp_all add: body_arrays_updateParticles_rotation)
  have r: "map_option body_arrays (rightEarth (updateEarth deltaTime w1)) =
           map_option (\<lambda>r. if getEarthMode w1 = DUAL then body_arrays (updateParticles r deltaTime)
                            else body_arrays r) (rightEarth w1)"
    unfolding updateEarth_rightEarth getEarthMode_DUAL
    by (cases "rightEarth w1") (simp_all add: body_arrays_updateParticles_rotation)
  from a g l r show ?thesis by blast
qed

lemma handControl_undetected: "\<not> h_detected h \<Longrightarrow> handControl h target = target"
  by (cases target) (simp_all add: handControl_def)

lemma dualEarthControl_no_hands: "dualEarthControl no_hands_state env w = w"
  by (simp add: dualEarthControl_def Let_def handControl_undetected no_hands_state_def no_hand_def)

lemma processGestures_no_hands_dual:
  assumes "isDualMode w"
  shows "processGestures no_hands_env w =
           Some (w\<lparr>dualEarthCooldown := max 0 (dualEarthCooldown w - 1),
                   previousGestureState := Some no_hands_state\<rparr>)"
proof -
  have n: "env_leftHand no_hands_env = None" "env_rightHand no_hands_env = None"
    by (simp_all add: no_hands_env_def)
  have gs: "getGestureState (env_leftHand no_hands_env) (env_rightHand no_hands_env)
              (previousGestureState w) (w_handHistory w)
              (env_nowLeft no_hands_env) (env_nowRight no_hands_env) =
            Some (no_hands_state, w_handHistory w)"
    unfolding n by (rule getGestureState_absent)
  show ?thesis
    unfolding processGestures_dual [OF assms gs] dualEarthControl_no_hands by simp
qed

theorem animate_integrates_witness:
  "processGestures no_hands_env dual_world =
     Some (dual_world\<lparr>dualEarthCooldown := 0, previousGestureState := Some no_hands_state\<rparr>) \<and>
   (\<exists>w2. animate (1 / 60) no_hands_env dual_world = Some w2 \<and>
      map_option body_arrays (earthGroup w2) = map_option body_arrays (earthGroup dual_world) \<and>
      map_option body_arrays (leftEarth w2) =
        map_option (\<lambda>l. body_arrays (updateParticles l (1 / 60))) (leftEarth dual_world) \<and>
      map_option body_arrays (rightEarth w2) =
        map_option (\<lambda>r. body_arrays (updateParticles r (1 / 60))) (rightEarth dual_world))"
proof -
  have p: "processGestures no_hands_env dual_world =
     Some (dual_world\<lparr>dualEarthCooldown := 0, previousGestureState := Some no_hands_state\<rparr>)"
    unfolding processGestures_no_hands_dual [OF dual_world_facts(7)]
    by (simp add: dual_world_facts(2))
  from animate_integrates [OF p, of "1 / 60"] p show ?thesis
    by (simp add: dual_world_facts getEarthMode_def)
qed

lemma disperse_loop_step:
  "i < limit \<Longrightarrow>
   disperse_loop limit intensity gain positions i velocities =
   disperse_loop limit intensity gain positions (i + 3)
     (if sqrt (positions ! i * positions ! i + positions ! (i + 1) * positions ! (i + 1)
               + positions ! (i + 2) * positions ! (i + 2)) > 0
      then velocities
        [i := velocities ! i + positions ! i /
                sqrt (positions ! i * positions ! i + positions ! (i + 1) * positions ! (i + 1)
                      + positions ! (i + 2) * positions ! (i + 2)) * intensity * gain,
         i + 1 := velocities ! (i + 1) + positions ! (i + 1) /
                sqrt (positions ! i * positions ! i + positions ! (i + 1) * positions ! (i + 1)
                      + positions ! (i + 2) * positions ! (i + 2)) * intensity * gain,
         i + 2 := velocities ! (i + 2) + positions ! (i + 2) /
                sqrt (positions ! i * positions ! i + positions ! (i + 1) * positions ! (i + 1)
                      + positions ! (i + 2) * positions ! (i + 2)) * intensity * gain]
      else velocities)"
  by (subst disperse_loop.simps) (simp add: Let_def)

lemma disperse_loop_below:
  "j < i \<Longrightarrow> disperse_loop limit intensity gain positions i velocities ! j = velocities ! j"
proof (induction "limit - i" arbitrary: i velocities rule: less_induct)
  case less
  show ?case
  proof (cases "i < limit")
    case False
    then show ?thesis by (subst disperse_loop.simps) simp
  next
    case True
    have m: "limit - (i + 3) < limit - i" using True by auto
    have j: "j < i + 3" using less.prems by simp
    show ?thesis
      unfolding disperse_loop_step [OF True] less.hyps [OF m j]
      using less.prems by simp
  qed
qed

lemma merging_world_facts:
  "getEarthMode merging_world = MERGING" "isDualMode merging_world"
  "scene merging_world = [''mainEarth'', ''leftEarth'', ''rightEarth'']"
  "leftEarth merging_world =
     Some (disperseParticles
             (fresh_earth\<lparr>position_x := -1.2, position_y := 0, position_z := -3,
                          scale := 0.7, e_name := ''leftEarth''\<rparr>) 0.5)"
  by (simp_all add: merging_world_def mergeEarths_def dual_world_facts getEarthMode_def)

text \<open>
  In state MERGING the secondary Earths are in the scene and are not integrated, against
  the claim C3: the left Earth, dispersed before the merge started, has a non-zero
  velocity, the physics step would move its first coordinate, and the frame leaves its
  positions as they are.
\<close>

theorem animate_integrates_counterexample:
  "getEarthMode merging_world = MERGING \<and> ''leftEarth'' \<in> set (scene merging_world) \<and>
   map_option earthParticles (leftEarth (the (animate (1 / 60) no_hands_env merging_world))) =
     map_option earthParticles (leftEarth merging_world) \<and>
   earthParticles (updateParticles (the (leftEarth merging_world)) (1 / 60)) ! 0 \<noteq>
     earthParticles (the (leftEarth merging_world)) ! 0"
proof -
  let ?L = "fresh_earth\<lparr>position_x := -1.2, position_y := 0, position_z := -3,
                          scale := 0.7, e_name := ''leftEarth''\<rparr>"
  let ?P = "replicate (PARTICLE_COUNT * 3) (0.5::real)"
  let ?V0 = "replicate (PARTICLE_COUNT * 3) (0::real)"
  let ?V = "disperse_loop (PARTICLE_COUNT * 3) 0.5 0.025 ?P 0 ?V0"
  have n: "0 < PARTICLE_COUNT * 3" "1 < PARTICLE_COUNT * 3" "2 < PARTICLE_COUNT * 3"
    using PARTICLE_COUNT_pos by simp_all
  have a: "animate (1 / 60) no_hands_env merging_world =
        Some (updateEarth (1 / 60)
               (merging_world\<lparr>dualEarthCooldown := max 0 (dualEarthCooldown merging_world - 1),
                              previousGestureState := Some no_hands_state\<rparr>))"
    by (simp add: animate_def processGestures_no_hands_dual [OF merging_world_facts(2)])
  have m: "isMerging merging_world"
    using merging_world_facts(1) by (simp add: getEarthMode_MERGING)
  have 1: "map_option earthParticles (leftEarth (the (animate (1 / 60) no_hands_env merging_world))) =
     map_option earthParticles (leftEarth merging_world)"
    unfolding a by (simp add: updateEarth_leftEarth m)
  have p: "earthParticles (disperseParticles ?L 0.5) = ?P"
    and v: "earthParticleVelocities (disperseParticles ?L 0.5) = ?V"
    by (simp_all add: disperseParticles_def Let_def fresh_earth_def createEarthInstance_def)
  have len: "sqrt (?P ! 0 * ?P ! 0 + ?P ! (0 + 1) * ?P ! (0 + 1) + ?P ! (0 + 2) * ?P ! (0 + 2)) > 0"
    using n by simp
  have v0: "?V ! 0 > 0"
    unfolding disperse_loop_step [OF n(1)] using len n
    by (simp add: disperse_loop_below)
  have "fst (integrate_loop (PARTICLE_COUNT * 3) 0.97 0 ?P ?V False) ! 0 = ?P ! 0 + ?V ! 0"
    using n by (subst integrate_loop_positions) simp_all
  with v0 have 2: "earthParticles (updateParticles (disperseParticles ?L 0.5) (1 / 60)) ! 0 \<noteq>
     earthParticles (disperseParticles ?L 0.5) ! 0"
    unfolding updateParticles_earthParticles p v by simp
  from merging_world_facts(1,3,4) 1 2 show ?thesis by simp
qed

lemma disperse_loop_particle:
  assumes "3 * k + 2 < limit" and "limit \<le> length velocities" and "i \<le> 3 * k" and "3 dvd i"
    and "c < 3"
  shows "disperse_loop limit intensity gain positions i velocities ! (3 * k + c) =
           (if particle_len positions k > 0
            then velocities ! (3 * k + c)
                 + positions ! (3 * k + c) / particle_len positions k * intensity * gain
            else velocities ! (3 * k + c))"
  using assms
proof (induction "limit - i" arbitrary: i velocities rule: less_induct)
  case less
  have lt: "i < limit" using less.prems by simp
  let ?len = "sqrt (positions ! i * positions ! i + positions ! (i + 1) * positions ! (i + 1)
               + positions ! (i + 2) * positions ! (i + 2))"
  let ?v = "velocities
        [i := velocities ! i + positions ! i / ?len * intensity * gain,
         i + 1 := velocities ! (i + 1) + positions ! (i + 1) / ?len * intensity * gain,
         i + 2 := velocities ! (i + 2) + positions ! (i + 2) / ?len * intensity * gain]"
  show ?case
  proof (cases "i = 3 * k")
    case True
    have below: "3 * k + c < i + 3" using True less.prems(5) by simp
    define L where "L = particle_len positions k"
    have pl: "?len = L"
      by (simp add: True particle_len_def L_def)
    have inr: "i + 2 < length velocities" using True less.prems(1,2) by simp
    let ?u = "velocities
        [i := velocities ! i + positions ! i / L * intensity * gain,
         i + 1 := velocities ! (i + 1) + positions ! (i + 1) / L * intensity * gain,
         i + 2 := velocities ! (i + 2) + positions ! (i + 2) / L * intensity * gain]"
    have vc: "?u ! (3 * k + c) =
              velocities ! (3 * k + c) + positions ! (3 * k + c) / L * intensity * gain"
    proof -
      consider "c = 0" | "c = 1" | "c = 2" using less.prems(5) by linarith
      then show ?thesis
        using inr by cases (simp_all add: True nth_list_update)
    qed
    have "disperse_loop limit intensity gain positions i velocities ! (3 * k + c) =
          (if L > 0 then ?u else velocities) ! (3 * k + c)"
      unfolding disperse_loop_step [OF lt] disperse_loop_below [OF below] pl ..
    also have "\<dots> = (if L > 0
            then velocities ! (3 * k + c) + positions ! (3 * k + c) / L * intensity * gain
            else velocities ! (3 * k + c))"
    proof (cases "L > 0")
      case True
      then show ?thesis by (simp only: if_True vc)
    next
      case False
      then show ?thesis by (simp only: if_False)
    qed
    finally show ?thesis unfolding L_def .
  next
    case False
    with less.prems(3,4) have i3: "i + 3 \<le> 3 * k"
      by (auto elim!: dvdE)
    have m: "limit - (i + 3) < limit - i" using lt by auto
    have d: "3 dvd i + 3" using less.prems(4) by simp
    have same: "?v ! (3 * k + c) = velocities ! (3 * k + c)"
      using i3 by simp
    let ?w = "if ?len > 0 then ?v else velocities"
    have len': "limit \<le> length ?w" using less.prems(2) by simp
    have w: "?w ! (3 * k + c) = velocities ! (3 * k + c)"
      using same by simp
    show ?thesis
      unfolding disperse_loop_step [OF lt]
      unfolding less.hyps [OF m less.prems(1) len' i3 d less.prems(5)] w ..
  qed
qed

lemma integrate_loop_velocities:
  assumes "3 dvd i" and "3 dvd limit" and "limit \<le> length velocities" and "j < length velocities"
  shows "fst (snd (integrate_loop limit damping i positions velocities hasMotion)) ! j =
           (if i \<le> j \<and> j < limit then velocities ! j * damping else velocities ! j)"
  using assms
proof (induction "limit - i" arbitrary: i positions velocities hasMotion rule: less_induct)
  case less
  show ?case
  proof (cases "i < limit")
    case False
    then show ?thesis by (simp add: integrate_loop_stop)
  next
    case True
    let ?v = "velocities[i := velocities ! i * damping,
                 i + 1 := velocities ! (i + 1) * damping,
                 i + 2 := velocities ! (i + 2) * damping]"
    from True less.prems(1,2) have i3: "i + 3 \<le> limit"
      by (auto elim!: dvdE)
    have d: "3 dvd i + 3" using less.prems(1) by simp
    have len: "limit \<le> length ?v" "j < length ?v" using less.prems by simp_all
    have m: "limit - (i + 3) < limit - i" using True by auto
    have vj: "?v ! j = (if i \<le> j \<and> j < i + 3 then velocities ! j * damping else velocities ! j)"
      using less.prems(3,4) i3 by (auto simp: nth_list_update)
    have "fst (snd (integrate_loop limit damping i positions velocities hasMotion)) ! j =
          (if i + 3 \<le> j \<and> j < limit then ?v ! j * damping else ?v ! j)"
      unfolding integrate_loop_step [OF True]
      by (rule less.hyps [OF m d less.prems(2) len])
    also have "\<dots> = (if i \<le> j \<and> j < limit then velocities ! j * damping else velocities ! j)"
      using vj i3 by auto
    finally show ?thesis .
  qed
qed

lemma updateParticles_particles:
  "particles (updateParticles e deltaTime) =
     fst (integrate_loop (OUTER_COUNT * 3) 0.98 0 (particles e) (particleVelocities e) False)"
  by (simp add: updateParticles_def Let_def split: prod.splits)

lemma updateParticles_particleVelocities:
  "particleVelocities (updateParticles e deltaTime) =
     fst (snd (integrate_loop (OUTER_COUNT * 3) 0.98 0 (particles e) (particleVelocities e) False))"
  by (simp add: updateParticles_def Let_def split: prod.splits)

lemma updateParticles_particles_needsUpdate:
  "particles_needsUpdate (updateParticles e deltaTime) =
     (particles_needsUpdate e \<or>
      snd (snd (integrate_loop (OUTER_COUNT * 3) 0.98 0 (particles e) (particleVelocities e) False)))"
  by (simp add: updateParticles_def Let_def split: prod.splits)

lemma disperseParticles_outer:
  "particles (disperseParticles e intensity) = particles e"
  "particleVelocities (disperseParticles e intensity) =
     disperse_loop (OUTER_COUNT * 3) intensity 0.03 (particles e) 0 (particleVelocities e)"
  "particles_needsUpdate (disperseParticles e intensity) = particles_needsUpdate e"
  by (simp_all add: disperseParticles_def Let_def)

lemma integrate_loop_lengths:
  "length (fst (integrate_loop limit damping i positions velocities hasMotion)) = length positions
   \<and> length (fst (snd (integrate_loop limit damping i positions velocities hasMotion))) =
       length velocities"
proof (induction "limit - i" arbitrary: i positions velocities hasMotion rule: less_induct)
  case less
  show ?case
  proof (cases "i < limit")
    case True
    have m: "limit - (i + 3) < limit - i" using True by auto
    show ?thesis
      unfolding integrate_loop_step [OF True] using less.hyps [OF m] by simp
  next
    case False
    then show ?thesis by (simp add: integrate_loop_stop)
  qed
qed

lemma disperse_loop_length:
  "length (disperse_loop limit intensity gain positions i velocities) = length velocities"
proof (induction "limit - i" arbitrary: i velocities rule: less_induct)
  case less
  show ?case
  proof (cases "i < limit")
    case True
    have m: "limit - (i + 3) < limit - i" using True by auto
    show ?thesis
      unfolding disperse_loop_step [OF True] less.hyps [OF m] by simp
  next
    case False
    then show ?thesis by (subst disperse_loop.simps) simp
  qed
qed

lemma frames_outer_lengths:
  assumes "length (particleVelocities e) = OUTER_COUNT * 3"
    and "length (particles e) = OUTER_COUNT * 3"
  shows "length (particleVelocities (((\<lambda>e. updateParticles e deltaTime) ^^ m) e)) = OUTER_COUNT * 3"
    and "length (particles (((\<lambda>e. updateParticles e deltaTime) ^^ m) e)) = OUTER_COUNT * 3"
  using assms
  by (induction m)
     (simp_all add: updateParticles_particles updateParticles_particleVelocities
        integrate_loop_lengths)

lemma frames_outer_velocities:
  assumes "length (particleVelocities e) = OUTER_COUNT * 3"
    and "length (particles e) = OUTER_COUNT * 3"
    and "j < OUTER_COUNT * 3"
  shows "particleVelocities (((\<lambda>e. updateParticles e deltaTime) ^^ m) e) ! j =
           particleVelocities e ! j * 0.98 ^ m"
proof (induction m)
  case 0
  show ?case by simp
next
  case (Suc m)
  let ?e = "((\<lambda>e. updateParticles e deltaTime) ^^ m) e"
  have l: "length (particleVelocities ?e) = OUTER_COUNT * 3"
    by (rule frames_outer_lengths(1) [OF assms(1,2)])
  have "particleVelocities (updateParticles ?e deltaTime) ! j = particleVelocities ?e ! j * 0.98"
    unfolding updateParticles_particleVelocities
    using l assms(3) by (subst integrate_loop_velocities) simp_all
  then show ?case by (simp add: Suc.IH)
qed

text \<open>
  Claim C5 on the outer body, at states the code reaches. Create an Earth from any draw of
  the outer positions, disperse it once with the intensity 0.5 of the open hand, and run
  \<open>m\<close> physics steps; every outer velocity is then the common speed
  \<open>0.015 * 0.98 ^ m\<close> times the particle's radial unit vector. If, at the damped speed,
  the \<open>x\<close> component of every particle is at most the epsilon while the \<open>y\<close> component
  of some particle \<open>q\<close> is above it, the next step moves particle \<open>q\<close>, whose \<open>y\<close>
  velocity is above the epsilon before and after the damping, but \<open>hasMotion\<close> looks at the
  \<open>x\<close> components only: it stays false and the step requests no upload of the outer
  positions.
\<close>

theorem outer_motion_unreported:
  assumes "length outer = OUTER_COUNT * 3"
    and "\<forall>k<OUTER_COUNT.
           \<bar>outer ! (3 * k)\<bar> * (0.98 * (0.015 * 0.98 ^ m)) \<le> 0.0001 * particle_len outer k"
    and "q < OUTER_COUNT" and "0 < particle_len outer q"
    and "0.0001 * particle_len outer q < \<bar>outer ! (3 * q + 1)\<bar> * (0.98 * (0.015 * 0.98 ^ m))"
    and "e = ((\<lambda>e. updateParticles e deltaTime) ^^ m)
               (disperseParticles (createEarthInstance surface outer) 0.5)"
  shows "\<bar>particleVelocities e ! (3 * q + 1)\<bar> > 0.0001
       \<and> \<bar>particleVelocities (updateParticles e deltaTime) ! (3 * q + 1)\<bar> > 0.0001
       \<and> particles (updateParticles e deltaTime) ! (3 * q + 1) =
           particles e ! (3 * q + 1) + particleVelocities e ! (3 * q + 1)
       \<and> particles (updateParticles e deltaTime) ! (3 * q + 1) \<noteq> particles e ! (3 * q + 1)
       \<and> \<not> snd (snd (integrate_loop (OUTER_COUNT * 3) 0.98 0
                        (particles e) (particleVelocities e) False))
       \<and> particles_needsUpdate (updateParticles e deltaTime) = particles_needsUpdate e
       \<and> (m = 0 \<longrightarrow> \<not> particles_needsUpdate (updateParticles e deltaTime))"
proof -
  let ?e0 = "disperseParticles (createEarthInstance surface outer) 0.5"
  let ?Z = "replicate (OUTER_COUNT * 3) (0::real)"
  let ?V = "disperse_loop (OUTER_COUNT * 3) 0.5 0.03 outer 0 ?Z"
  let ?c = "0.98 ^ m :: real"
  have cpos: "0 < ?c" by simp
  have p0: "particles ?e0 = outer" and v0: "particleVelocities ?e0 = ?V"
    and u0: "\<not> particles_needsUpdate ?e0"
    by (simp_all add: disperseParticles_outer createEarthInstance_def)
  have lv0: "length (particleVelocities ?e0) = OUTER_COUNT * 3"
    unfolding v0 by (simp add: disperse_loop_length)
  have lp0: "length (particles ?e0) = OUTER_COUNT * 3"
    unfolding p0 by (rule assms(1))
  have lv: "length (particleVelocities e) = OUTER_COUNT * 3"
    and lp: "length (particles e) = OUTER_COUNT * 3"
    unfolding assms(6) by (rule frames_outer_lengths [OF lv0 lp0])+
  have ve: "particleVelocities e ! j = ?V ! j * ?c" if "j < OUTER_COUNT * 3" for j
    unfolding assms(6) frames_outer_velocities [OF lv0 lp0 that] v0 ..
  have q2: "3 * q + 2 < OUTER_COUNT * 3" and q1: "3 * q + 1 < OUTER_COUNT * 3"
    using assms(3) by simp_all
  have vx: "?V ! (3 * k) = (if particle_len outer k > 0
                            then outer ! (3 * k) / particle_len outer k * 0.015 else 0)"
    if "k < OUTER_COUNT" for k
  proof -
    have k2: "3 * k + 2 < OUTER_COUNT * 3" using that by simp
    have "?V ! (3 * k + 0) =
          (if particle_len outer k > 0
           then ?Z ! (3 * k + 0) + outer ! (3 * k + 0) / particle_len outer k * 0.5 * 0.03
           else ?Z ! (3 * k + 0))"
      by (rule disperse_loop_particle [OF k2]) simp_all
    then show ?thesis using k2 by simp
  qed
  have vy: "?V ! (3 * q + 1) = outer ! (3 * q + 1) / particle_len outer q * 0.015"
  proof -
    have "?V ! (3 * q + 1) =
          (if particle_len outer q > 0
           then ?Z ! (3 * q + 1) + outer ! (3 * q + 1) / particle_len outer q * 0.5 * 0.03
           else ?Z ! (3 * q + 1))"
      by (rule disperse_loop_particle [OF q2]) simp_all
    then show ?thesis using q1 assms(4) by simp
  qed
  have damped_y: "\<bar>?V ! (3 * q + 1) * ?c * 0.98\<bar> > 0.0001"
  proof -
    have "\<bar>?V ! (3 * q + 1) * ?c * 0.98\<bar> =
          \<bar>outer ! (3 * q + 1)\<bar> * (0.98 * (0.015 * ?c)) / particle_len outer q"
      unfolding vy using assms(4) by (simp add: abs_mult)
    moreover have "0.0001 < \<bar>outer ! (3 * q + 1)\<bar> * (0.98 * (0.015 * ?c)) / particle_len outer q"
      using assms(4,5) by (simp add: pos_less_divide_eq)
    ultimately show ?thesis by simp
  qed
  have raw_y: "\<bar>?V ! (3 * q + 1) * ?c\<bar> > 0.0001"
  proof -
    have "\<bar>?V ! (3 * q + 1) * ?c * 0.98\<bar> = \<bar>?V ! (3 * q + 1) * ?c\<bar> * 0.98"
      by (simp add: abs_mult)
    also have "\<dots> \<le> \<bar>?V ! (3 * q + 1) * ?c\<bar>" by simp
    finally show ?thesis using damped_y by simp
  qed
  have 1: "\<bar>particleVelocities e ! (3 * q + 1)\<bar> > 0.0001"
    unfolding ve [OF q1] by (rule raw_y)
  have damped: "particleVelocities (updateParticles e deltaTime) ! (3 * q + 1) =
                particleVelocities e ! (3 * q + 1) * 0.98"
    unfolding updateParticles_particleVelocities
    using q1 lv by (subst integrate_loop_velocities) simp_all
  have 2: "\<bar>particleVelocities (updateParticles e deltaTime) ! (3 * q + 1)\<bar> > 0.0001"
    unfolding damped ve [OF q1] by (rule damped_y)
  have 3: "particles (updateParticles e deltaTime) ! (3 * q + 1) =
           particles e ! (3 * q + 1) + particleVelocities e ! (3 * q + 1)"
    unfolding updateParticles_particles
    using q1 lp by (subst integrate_loop_positions) simp_all
  have 4: "particles (updateParticles e deltaTime) ! (3 * q + 1) \<noteq> particles e ! (3 * q + 1)"
    unfolding 3 using 1 by auto
  have slow: "\<not> (0 + 3 * k < OUTER_COUNT * 3 \<and>
                 \<bar>particleVelocities e ! (0 + 3 * k) * 0.98\<bar> > 0.0001)" for k
  proof (cases "k < OUTER_COUNT")
    case True
    then have k0: "3 * k < OUTER_COUNT * 3" by simp
    have "\<bar>?V ! (3 * k) * ?c * 0.98\<bar> \<le> 0.0001"
    proof (cases "particle_len outer k > 0")
      case False
      then show ?thesis unfolding vx [OF True] by simp
    next
      case pos: True
      have "\<bar>?V ! (3 * k) * ?c * 0.98\<bar> =
            \<bar>outer ! (3 * k)\<bar> * (0.98 * (0.015 * ?c)) / particle_len outer k"
        unfolding vx [OF True] using pos by (simp add: abs_mult)
      moreover have "\<bar>outer ! (3 * k)\<bar> * (0.98 * (0.015 * ?c)) / particle_len outer k \<le> 0.0001"
        using assms(2) True pos by (simp add: pos_divide_le_eq)
      ultimately show ?thesis by simp
    qed
    then show ?thesis using ve [OF k0] by simp
  next
    case False
    then show ?thesis by simp
  qed
  have 5: "\<not> snd (snd (integrate_loop (OUTER_COUNT * 3) 0.98 0
                        (particles e) (particleVelocities e) False))"
    using slow lv by (subst integrate_loop_hasMotion) simp_all
  have 6: "particles_needsUpdate (updateParticles e deltaTime) = particles_needsUpdate e"
    unfolding updateParticles_particles_needsUpdate using 5 by simp
  have 7: "m = 0 \<longrightarrow> \<not> particles_needsUpdate (updateParticles e deltaTime)"
    unfolding 6 using u0 by (simp add: assms(6))
  from 1 2 3 4 5 6 7 show ?thesis by blast
qed

lemma axis_outer_nth:
  "j < OUTER_COUNT * 3 \<Longrightarrow>
   axis_outer ! j = (if j mod 3 = 1 then 0.7 + real (j div 3) * 0.0005 else 0)"
  by (simp add: axis_outer_def)

lemma axis_outer_len:
  assumes "k < OUTER_COUNT"
  shows "particle_len axis_outer k = 0.7 + real k * 0.0005"
proof -
  have i: "3 * k < OUTER_COUNT * 3" "3 * k + 1 < OUTER_COUNT * 3" "3 * k + 2 < OUTER_COUNT * 3"
    using assms by simp_all
  have m: "(3 * k) mod 3 = 0" "(3 * k + 1) mod 3 = 1" "(3 * k + 2) mod 3 = 2"
    "(3 * k + 1) div 3 = k"
    by presburger+
  have x: "axis_outer ! (3 * k) = 0"
    unfolding axis_outer_nth [OF i(1)] m by simp
  have y: "axis_outer ! (3 * k + 1) = 0.7 + real k * 0.0005"
    unfolding axis_outer_nth [OF i(2)] m by simp
  have z: "axis_outer ! (3 * k + 2) = 0"
    unfolding axis_outer_nth [OF i(3)] m by simp
  have "0 \<le> 0.7 + real k * 0.0005" by simp
  then show ?thesis unfolding particle_len_def x y z by simp
qed

theorem outer_motion_unreported_witness:
  "length axis_outer = OUTER_COUNT * 3 \<and>
   0 < OUTER_COUNT \<and> 0 < particle_len axis_outer 0 \<and>
   0.0001 * particle_len axis_outer 0 < \<bar>axis_outer ! 1\<bar> * (0.98 * (0.015 * 0.98 ^ 0)) \<and>
   \<bar>particleVelocities
      (disperseParticles (createEarthInstance (replicate (PARTICLE_COUNT * 3) 0.5) axis_outer) 0.5)
      ! 1\<bar> > 0.0001 \<and>
   particles (updateParticles
      (disperseParticles (createEarthInstance (replicate (PARTICLE_COUNT * 3) 0.5) axis_outer) 0.5)
      (1 / 60)) ! 1 \<noteq>
   particles
      (disperseParticles (createEarthInstance (replicate (PARTICLE_COUNT * 3) 0.5) axis_outer) 0.5)
      ! 1 \<and>
   \<not> particles_needsUpdate (updateParticles
      (disperseParticles (createEarthInstance (replicate (PARTICLE_COUNT * 3) 0.5) axis_outer) 0.5)
      (1 / 60))"
proof -
  have a: "length axis_outer = OUTER_COUNT * 3" by (simp add: axis_outer_def)
  have b: "\<forall>k<OUTER_COUNT.
       \<bar>axis_outer ! (3 * k)\<bar> * (0.98 * (0.015 * 0.98 ^ 0)) \<le> 0.0001 * particle_len axis_outer k"
    by (simp add: axis_outer_len axis_outer_nth)
  have c: "0 < OUTER_COUNT" by (rule OUTER_COUNT_pos)
  have d: "0 < particle_len axis_outer 0" using c by (simp add: axis_outer_len)
  have y: "axis_outer ! Suc 0 = 0.7" using c by (simp add: axis_outer_nth)
  have f: "0.0001 * particle_len axis_outer 0
           < \<bar>axis_outer ! (3 * 0 + 1)\<bar> * (0.98 * (0.015 * 0.98 ^ 0))"
    using c by (simp add: axis_outer_len y)
  have g: "disperseParticles (createEarthInstance (replicate (PARTICLE_COUNT * 3) 0.5) axis_outer) 0.5
           = ((\<lambda>e. updateParticles e (1 / 60)) ^^ 0)
               (disperseParticles (createEarthInstance (replicate (PARTICLE_COUNT * 3) 0.5) axis_outer) 0.5)"
    by simp
  note r = outer_motion_unreported [OF a b c d f g]
  have 1: "\<bar>particleVelocities
      (disperseParticles (createEarthInstance (replicate (PARTICLE_COUNT * 3) 0.5) axis_outer) 0.5)
      ! 1\<bar> > 0.0001"
    using r [THEN conjunct1] by simp
  have 2: "particles (updateParticles
      (disperseParticles (createEarthInstance (replicate (PARTICLE_COUNT * 3) 0.5) axis_outer) 0.5)
      (1 / 60)) ! 1 \<noteq>
   particles
      (disperseParticles (createEarthInstance (replicate (PARTICLE_COUNT * 3) 0.5) axis_outer) 0.5)
      ! 1"
    using r [THEN conjunct2, THEN conjunct2, THEN conjunct2, THEN conjunct1] by simp
  have 3: "\<not> particles_needsUpdate (updateParticles
      (disperseParticles (createEarthInstance (replicate (PARTICLE_COUNT * 3) 0.5) axis_outer) 0.5)
      (1 / 60))"
    using r [THEN conjunct2, THEN conjunct2, THEN conjunct2, THEN conjunct2, THEN conjunct2,
             THEN conjunct2]
    by simp
  have f': "0.0001 * particle_len axis_outer 0 < \<bar>axis_outer ! 1\<bar> * (0.98 * (0.015 * 0.98 ^ 0))"
    using f by simp
  from a c d f' 1 2 3 show ?thesis by blast
qed

end
